theory Spec2Isabelle
  imports Complex_Main "HOL-Library.Log_Nat"
begin

section \<open>Values shared by the three swap scripts\<close>

text \<open>
  The repository holds three command-line scripts:
  \<^item> \<^verbatim>\<open>claw-wallet/scripts/swap.js\<close>: the first Aerodrome swap script (slippage given as a
    percentage, unlimited approvals);
  \<^item> \<^verbatim>\<open>clawlett/scripts/swap.js\<close>, first part: the reworked Aerodrome script (slippage in basis
    points, quote validation, approval modes);
  \<^item> \<^verbatim>\<open>clawlett/scripts/swap.js\<close>, second part: the CoW Protocol script (off-chain order,
    on-chain presignature, polling).

  Token amounts are JavaScript \<^verbatim>\<open>BigInt\<close>s and are modelled as \<^typ>\<open>int\<close>. A JavaScript
  \<^verbatim>\<open>Number\<close> is a double: its finite values are rationals, and the three special values
  are constructors of their own (the sign of a zero is not kept: no script reads it).
\<close>

datatype number = Finite rat | PosInfinity | NegInfinity | NaN

subsection \<open>Double arithmetic\<close>

text \<open>
  The scripts apply two operations of IEEE-754 binary64 to Numbers: a product
  (\<^verbatim>\<open>value * 10000\<close>) and differences (\<^verbatim>\<open>10000 - slippageBps\<close>, \<^verbatim>\<open>100 - args.slippage\<close>).
  Each is the exact result rounded to the nearest double, a tie going to the even
  significand.

  A finite double is \<open>\<plusminus> m \<times> 2\<^sup>e\<close> with \<open>m < 2\<^sup>5\<^sup>3\<close> and \<open>- 1074 \<le> e \<le> 971\<close>.
  \<open>pow2 e\<close> is \<open>2\<^sup>e\<close>, \<open>floor_log2 a\<close> is the \<open>k\<close> with \<open>2\<^sup>k \<le> a < 2\<^sup>k\<^sup>+\<^sup>1\<close> for a positive
  \<open>a\<close>, and \<open>round53 x\<close> is \<open>x\<close> rounded to 53 significant bits, or to a multiple of
  \<open>2\<^sup>-\<^sup>1\<^sup>0\<^sup>7\<^sup>4\<close> in the subnormal range. \<open>to_double\<close> adds the overflow: a result that
  rounds to \<open>2\<^sup>1\<^sup>0\<^sup>2\<^sup>4\<close> or beyond is an infinity.
\<close>

definition pow2 :: "int \<Rightarrow> rat" where
  "pow2 k = (if 0 \<le> k then 2 ^ nat k else 1 / 2 ^ nat (- k))"

definition floor_log2 :: "rat \<Rightarrow> int" where
  "floor_log2 a =
     (let k = bitlen (fst (quotient_of a)) - bitlen (snd (quotient_of a))
      in if pow2 k \<le> a then k else k - 1)"

definition round_half_even :: "rat \<Rightarrow> int" where
  "round_half_even q =
     (let f = \<lfloor>q\<rfloor>; d = q - of_int f
      in if d < 1 / 2 then f else if 1 / 2 < d then f + 1 else if even f then f else f + 1)"

definition round53 :: "rat \<Rightarrow> rat" where
  "round53 x =
     (if x = 0 then 0
      else let e = max (floor_log2 \<bar>x\<bar> - 52) (- 1074)
           in sgn x * (of_int (round_half_even (\<bar>x\<bar> / pow2 e)) * pow2 e))"

definition to_double :: "rat \<Rightarrow> number" where
  "to_double x =
     (let r = round53 x
      in if 2 ^ 1024 \<le> r then PosInfinity
         else if r \<le> - (2 ^ 1024) then NegInfinity
         else Finite r)"

text \<open>
  \<open>double_mul x y\<close> is \<^verbatim>\<open>x * y\<close> for two finite doubles, \<open>double_sub x y\<close> is \<^verbatim>\<open>x - y\<close> for
  two Numbers, and \<open>Math_round\<close> is \<^verbatim>\<open>Math.round\<close>: the nearest integer, a tie going up,
  which is \<^const>\<open>round\<close>.
\<close>

definition double_mul :: "rat \<Rightarrow> rat \<Rightarrow> number" where
  "double_mul x y = to_double (x * y)"

definition Math_round :: "number \<Rightarrow> number" where
  "Math_round x = (case x of Finite v \<Rightarrow> Finite (of_int (round v)) | _ \<Rightarrow> x)"

definition double_sub :: "number \<Rightarrow> number \<Rightarrow> number" where
  "double_sub x y =
     (case (x, y) of
        (Finite a, Finite b) \<Rightarrow> to_double (a - b)
      | (NaN, _) \<Rightarrow> NaN
      | (_, NaN) \<Rightarrow> NaN
      | (PosInfinity, PosInfinity) \<Rightarrow> NaN
      | (NegInfinity, NegInfinity) \<Rightarrow> NaN
      | (PosInfinity, _) \<Rightarrow> PosInfinity
      | (NegInfinity, _) \<Rightarrow> NegInfinity
      | (_, PosInfinity) \<Rightarrow> NegInfinity
      | (_, NegInfinity) \<Rightarrow> PosInfinity)"

text \<open>
  Every \<^verbatim>\<open>throw new Error(...)\<close>, every exception of a built-in and every rejected promise
  of the scripts is a value of \<open>error\<close>; a function that can throw returns
  \<open>error + 'a\<close> with \<open>Inl\<close> for the exception.
\<close>

datatype error =
    DivisionByZero                \<comment> \<open>RangeError: BigInt division by zero\<close>
  | NotAnInteger                  \<comment> \<open>RangeError: BigInt(x) for a Number x that is no integer\<close>
  | InvalidSlippage               \<comment> \<open>'Invalid slippage'\<close>
  | SlippageOutOfRange            \<comment> \<open>'Slippage must be between 0 and 0.5'\<close>
  | QuoteMissing                  \<comment> \<open>'Quote is missing'\<close>
  | InvalidHexData string         \<comment> \<open>'<label> must be valid hex data'\<close>
  | UnsafeQuoteErc20Value int     \<comment> \<open>'Unsafe quote: ERC20-in swap returned non-zero ETH value'\<close>
  | UnsafeQuoteEthValue int int   \<comment> \<open>'Unsafe quote: ETH value exceeds amountIn'\<close>
  | InvalidSafeRecipient          \<comment> \<open>'Invalid Safe recipient address'\<close>
  | ProtectedNoVerified string    \<comment> \<open>'SECURITY: ... is a protected token but no verified address found'\<close>
  | TokenNotFound string          \<comment> \<open>'Token ... not found in verified list'\<close>
  | InvalidAddress                \<comment> \<open>ethers.getAddress rejects its argument\<close>
  | CallFailed                    \<comment> \<open>a chain read, an HTTP request, an encoding or a transaction rejects\<close>
  | MissingArguments              \<comment> \<open>'--from, --to, and --amount are required'\<close>
  | ConfigNotFound                \<comment> \<open>'Config not found: ...'\<close>
  | InvalidAmount                 \<comment> \<open>ethers.parseUnits rejects the amount\<close>
  | InsufficientBalance           \<comment> \<open>'Insufficient balance' and its variants\<close>
  | QuoteFailed                   \<comment> \<open>the quote service answers with an error\<close>
  | AgentKeyNotFound              \<comment> \<open>'Agent private key not found'\<close>
  | HelpersNotConfigured          \<comment> \<open>'ZodiacHelpers address not found in config'\<close>
  | PreflightFailed               \<comment> \<open>'Wrong chain' or 'Missing contract bytecode'\<close>
  | SimulationFailed              \<comment> \<open>the eth_call simulation reverts\<close>
  | TransactionFailed             \<comment> \<open>receipt.status is not 1\<close>
  | OrderSubmissionFailed         \<comment> \<open>'CoW order submission failed: ...'\<close>
  | UnknownOrderKind string       \<comment> \<open>'Unknown order kind: ...'\<close>
  | UnknownBalanceType string     \<comment> \<open>'Unknown balance type: ...'\<close>
  | OrderExpired                  \<comment> \<open>'Order expired without being filled.'\<close>
  | OrderCancelled                \<comment> \<open>'Order was cancelled.'\<close>
  | OrderTimedOut                 \<comment> \<open>'Timed out after ...s. Order may still be filled.'\<close>
  | NotABigInt                    \<comment> \<open>BigInt(x) rejects a value of a JSON document\<close>
  | MalformedResponse             \<comment> \<open>TypeError on reading a field of a missing object\<close>

subsection \<open>BigInt arithmetic\<close>

text \<open>
  \<open>tdiv\<close> is the quotient truncated toward zero. \<open>bigint_div\<close> is JavaScript's
  \<^verbatim>\<open>a / b\<close> on BigInts: the truncated quotient, and a RangeError when \<^verbatim>\<open>b\<close> is \<^verbatim>\<open>0n\<close>.
  \<open>BigInt_of_number\<close> is \<^verbatim>\<open>BigInt(x)\<close> for a Number \<^verbatim>\<open>x\<close>: a RangeError unless
  \<^verbatim>\<open>x\<close> is an integer.
\<close>

definition tdiv :: "int \<Rightarrow> int \<Rightarrow> int" where
  "tdiv a b = sgn a * sgn b * (\<bar>a\<bar> div \<bar>b\<bar>)"

definition bigint_div :: "int \<Rightarrow> int \<Rightarrow> error + int" where
  "bigint_div a b = (if b = 0 then Inl DivisionByZero else Inr (tdiv a b))"

definition BigInt_of_number :: "number \<Rightarrow> error + int" where
  "BigInt_of_number x =
     (case x of
        Finite v \<Rightarrow> if of_int \<lfloor>v\<rfloor> = v then Inr \<lfloor>v\<rfloor> else Inl NotAnInteger
      | _ \<Rightarrow> Inl NotAnInteger)"

section \<open>Slippage and minimum output\<close>

subsection \<open>clawlett: basis points\<close>

text \<open>
  \<^verbatim>\<open>
  function parseSlippageBps(value) {
      if (!Number.isFinite(value)) throw new Error('Invalid slippage')
      if (value < 0 || value > 0.5) throw new Error('Slippage must be between 0 and 0.5')
      return Math.round(value * 10000)
  }
  \<close>
  The product is the double product, and the result is a Number.
\<close>

definition parseSlippageBps :: "number \<Rightarrow> error + number" where
  "parseSlippageBps value =
     (case value of
        Finite v \<Rightarrow>
          if v < 0 \<or> v > 1 / 2 then Inl SlippageOutOfRange
          else Inr (Math_round (double_mul v 10000))
      | _ \<Rightarrow> Inl InvalidSlippage)"

text \<open>
  In \<^verbatim>\<open>main\<close>:
  \<^verbatim>\<open>
  const minAmountOut = quote.minAmountOut || ((quote.amountOut * BigInt(10000 - slippageBps)) / 10000n)
  \<close>
  \<^verbatim>\<open>quote.minAmountOut\<close> is a BigInt or \<^verbatim>\<open>null\<close>; \<^verbatim>\<open>null\<close> and \<^verbatim>\<open>0n\<close> are falsy, and only
  then the right operand is evaluated. \<^verbatim>\<open>10000 - slippageBps\<close> is a difference of Numbers.
\<close>

definition computedMinAmountOut :: "int \<Rightarrow> number \<Rightarrow> error + int" where
  "computedMinAmountOut amountOut slippageBps =
     (case BigInt_of_number (double_sub (Finite 10000) slippageBps) of
        Inl e \<Rightarrow> Inl e
      | Inr k \<Rightarrow> bigint_div (amountOut * k) 10000)"

definition minAmountOut_clawlett :: "int option \<Rightarrow> int \<Rightarrow> number \<Rightarrow> error + int" where
  "minAmountOut_clawlett quoteMinAmountOut amountOut slippageBps =
     (case quoteMinAmountOut of
        Some m \<Rightarrow> if m \<noteq> 0 then Inr m else computedMinAmountOut amountOut slippageBps
      | None \<Rightarrow> computedMinAmountOut amountOut slippageBps)"


subsection \<open>claw-wallet: percentage\<close>

text \<open>
  \<^verbatim>\<open>
  const minAmountOut = quote.amountOut * BigInt(100 - args.slippage) / 100n
  \<close>
  \<^verbatim>\<open>args.slippage\<close> is \<^verbatim>\<open>1\<close> or the \<^verbatim>\<open>parseFloat\<close> of the argument of \<^verbatim>\<open>--slippage\<close>
  (\<^verbatim>\<open>Slippage % (default: 1)\<close>): a percentage, so that the slippage \<^verbatim>\<open>p\<close> stands for the
  fraction \<^verbatim>\<open>p / 100\<close>. Nothing checks its range, and the difference is a difference of
  Numbers.
\<close>

definition minAmountOut_claw_wallet :: "int \<Rightarrow> number \<Rightarrow> error + int" where
  "minAmountOut_claw_wallet amountOut slippage =
     (case BigInt_of_number (double_sub (Finite 100) slippage) of
        Inl e \<Rightarrow> Inl e
      | Inr k \<Rightarrow> bigint_div (amountOut * k) 100)"

section \<open>Smart slippage of the CoW script\<close>

text \<open>
  In \<^verbatim>\<open>submitCowOrder\<close> (and again, for display, in \<^verbatim>\<open>main\<close>):
  \<^verbatim>\<open>
  const feeSlippage = BigInt(q.feeAmount) * 3n / 2n
  const volumeSlippage = BigInt(q.sellAmount) * 5n / 1000n
  const totalSlippage = feeSlippage + volumeSlippage
  const buySlippage = BigInt(q.sellAmount) > 0n
      ? totalSlippage * BigInt(q.buyAmount) / BigInt(q.sellAmount)
      : BigInt(q.buyAmount) * 5n / 1000n
  \<close>
  Every division is \<open>bigint_div\<close>, so a division by zero would surface as
  \<open>Inl DivisionByZero\<close>.
\<close>

definition buySlippage :: "int \<Rightarrow> int \<Rightarrow> int \<Rightarrow> error + int" where
  "buySlippage feeAmount sellAmount buyAmount =
     (case bigint_div (feeAmount * 3) 2 of
        Inl e \<Rightarrow> Inl e
      | Inr feeSlippage \<Rightarrow>
     (case bigint_div (sellAmount * 5) 1000 of
        Inl e \<Rightarrow> Inl e
      | Inr volumeSlippage \<Rightarrow>
          let totalSlippage = feeSlippage + volumeSlippage in
          if sellAmount > 0 then bigint_div (totalSlippage * buyAmount) sellAmount
          else bigint_div (buyAmount * 5) 1000))"

text \<open>The discount as the specification words it, with the total truncated quotient.\<close>

definition smart_discount_spec :: "int \<Rightarrow> int \<Rightarrow> int \<Rightarrow> int" where
  "smart_discount_spec f s b = tdiv ((tdiv (f * 3) 2 + tdiv (s * 5) 1000) * b) s"

definition flat_discount_spec :: "int \<Rightarrow> int" where
  "flat_discount_spec b = tdiv (b * 5) 1000"

section \<open>Strings\<close>

text \<open>
  Strings are lists of ASCII characters. \<open>toUpperCase\<close> and \<open>toLowerCase\<close> change the
  26 letters and nothing else; \<open>trim\<close> removes the ASCII white space (codes 9 to 13 and 32)
  at both ends; \<open>startsWith\<close> is \<^verbatim>\<open>s.startsWith(p)\<close>.
\<close>

definition toUpperCase_char :: "char \<Rightarrow> char" where
  "toUpperCase_char c =
     (let n = (of_char c :: nat) in if 97 \<le> n \<and> n \<le> 122 then char_of (n - 32) else c)"

definition toLowerCase_char :: "char \<Rightarrow> char" where
  "toLowerCase_char c =
     (let n = (of_char c :: nat) in if 65 \<le> n \<and> n \<le> 90 then char_of (n + 32) else c)"

definition toUpperCase :: "string \<Rightarrow> string" where
  "toUpperCase s = map toUpperCase_char s"

definition toLowerCase :: "string \<Rightarrow> string" where
  "toLowerCase s = map toLowerCase_char s"

definition is_space :: "char \<Rightarrow> bool" where
  "is_space c = (let n = (of_char c :: nat) in (9 \<le> n \<and> n \<le> 13) \<or> n = 32)"

definition trim :: "string \<Rightarrow> string" where
  "trim s = rev (dropWhile is_space (rev (dropWhile is_space s)))"

definition startsWith :: "string \<Rightarrow> string \<Rightarrow> bool" where
  "startsWith s p = (take (length p) s = p)"

text \<open>\<^verbatim>\<open>s.replace(/^\$/, '')\<close>: one leading dollar sign is removed.\<close>

definition stripSigil :: "string \<Rightarrow> string" where
  "stripSigil s = (case s of c # rest \<Rightarrow> if c = CHR ''$'' then rest else s | [] \<Rightarrow> [])"

section \<open>Token resolution of claw-wallet\<close>

text \<open>
  The three tables of \<^verbatim>\<open>claw-wallet/scripts/swap.js\<close>, in the order of the source
  (\<^verbatim>\<open>Object.entries\<close> enumerates in insertion order).
\<close>

definition VERIFIED_TOKENS :: "(string \<times> string) list" where
  "VERIFIED_TOKENS =
    [(''ETH'', ''0x4200000000000000000000000000000000000006''),
     (''WETH'', ''0x4200000000000000000000000000000000000006''),
     (''USDC'', ''0x833589fCD6eDb6E08f4c7C32D4f71b54bdA02913''),
     (''USDT'', ''0xfde4C96c8593536E31F229EA8f37b2ADa2699bb2''),
     (''DAI'', ''0x50c5725949A6F0c72E6C4a641F24049A917DB0Cb''),
     (''USDS'', ''0x820C137fa70C8691f0e44Dc420a5e53c168921Dc''),
     (''AERO'', ''0x940181a94A35A4569E4529A3CDfB74e38FD98631''),
     (''cbBTC'', ''0xcbB7C0000aB88B473b1f5aFd9ef808440eed33Bf''),
     (''VIRTUAL'', ''0x0b3e328455c4059EEb9e3f84b5543F74E24e7E1b''),
     (''DEGEN'', ''0x4ed4E862860beD51a9570b96d89aF5E1B0Efefed''),
     (''BRETT'', ''0x532f27101965dd16442E59d40670FaF5eBB142E4''),
     (''TOSHI'', ''0xAC1Bd2486aAf3B5C0fc3Fd868558b082a531B2B4''),
     (''WELL'', ''0xA88594D404727625A9437C3f886C7643872296AE''),
     (''BID'', ''0xa1832f7f4e534ae557f9b5ab76de54b1873e498b'')]"

definition TOKEN_ALIASES :: "(string \<times> string) list" where
  "TOKEN_ALIASES =
    [(''ETHEREUM'', ''ETH''), (''ETHER'', ''ETH''), (''USD COIN'', ''USDC''), (''TETHER'', ''USDT'')]"

definition PROTECTED_SYMBOLS :: "string list" where
  "PROTECTED_SYMBOLS = [''ETH'', ''WETH'', ''USDC'', ''USDT'', ''DAI'', ''USDS'', ''AERO'', ''cbBTC'']"

definition WETH :: string where
  "WETH = ''0x4200000000000000000000000000000000000006''"

definition AeroRouter :: string where
  "AeroRouter = ''0xcF77a3Ba9A5CA399B7c97c74d54e5b1Beb874E43''"

text \<open>
  A token descriptor. The descriptors of claw-wallet have no \<^verbatim>\<open>native\<close> field, which reads
  as falsy there; \<open>warning = None\<close> is an absent \<^verbatim>\<open>warning\<close>.
\<close>

record token =
  address :: string
  symbol :: string
  decimals :: nat
  verified :: bool
  native :: bool
  warning :: "string option"

text \<open>
  What the scripts read from outside and only read: \<^verbatim>\<open>ethers.getAddress\<close> (\<open>None\<close> when it
  throws: not 40 hex digits, or a mixed-case address with a wrong checksum; otherwise the
  checksummed address), the ERC-20 metadata of the contract at an address (\<^verbatim>\<open>symbol()\<close> and
  \<^verbatim>\<open>decimals()\<close>, awaited together by \<^verbatim>\<open>Promise.all\<close>; \<open>None\<close> when either rejects),
  \<^verbatim>\<open>ethers.parseUnits\<close>, the balances of the Safe and its allowance to the router.
\<close>

record chain =
  getAddress :: "string \<Rightarrow> string option"
  metadata :: "string \<Rightarrow> (string \<times> nat) option"
  parseUnits :: "string \<Rightarrow> nat \<Rightarrow> int option"
  nativeBalance :: "int option"
  balanceOf :: "string \<Rightarrow> int option"
  allowance :: "string \<Rightarrow> int option"

text \<open>
  The warning of \<^verbatim>\<open>resolveByAddress\<close>, without its leading warning sign (which is not
  ASCII). \<^verbatim>\<open>VERIFIED_TOKENS[symbol.toUpperCase()]\<close> prints as \<^verbatim>\<open>undefined\<close> when the key is
  absent.
\<close>

definition warning_text :: "string \<Rightarrow> string \<Rightarrow> string" where
  "warning_text smb addr =
     '' WARNING: Token has symbol '' @ [CHR 0x22] @ smb @ [CHR 0x22] @
     '' but is NOT the verified '' @ smb @ ''.'' @ [CHR 0x0A] @
     ''Verified address: '' @
       (case map_of VERIFIED_TOKENS (toUpperCase smb) of Some a \<Rightarrow> a | None \<Rightarrow> ''undefined'') @
       [CHR 0x0A] @
     ''You provided: '' @ addr @ [CHR 0x0A] @
     ''This could be a SCAM TOKEN.''"

text \<open>
  \<^verbatim>\<open>
  async function resolveByAddress(address, provider) {
      address = ethers.getAddress(address)
      const verifiedEntry = Object.entries(VERIFIED_TOKENS).find(
          ([, addr]) => addr.toLowerCase() === address.toLowerCase())
      const tokenContract = new ethers.Contract(address, ERC20_ABI, provider)
      const [symbol, decimals] = await Promise.all([tokenContract.symbol(), tokenContract.decimals()])
      const result = { address, symbol, decimals: Number(decimals), verified: !!verifiedEntry }
      if (!verifiedEntry && PROTECTED_SYMBOLS.includes(symbol.toUpperCase())) {
          result.warning = ...
      }
      return result
  }
  \<close>
\<close>

definition resolveByAddress :: "chain \<Rightarrow> string \<Rightarrow> error + token" where
  "resolveByAddress c input =
     (case getAddress c input of
        None \<Rightarrow> Inl InvalidAddress
      | Some addr \<Rightarrow>
          let verifiedEntry =
                find (\<lambda>(k, a). toLowerCase a = toLowerCase addr) VERIFIED_TOKENS
          in (case metadata c addr of
                None \<Rightarrow> Inl CallFailed
              | Some (smb, dec) \<Rightarrow>
                  Inr \<lparr> address = addr, symbol = smb, decimals = dec,
                        verified = (verifiedEntry \<noteq> None), native = False,
                        warning =
                          (if verifiedEntry = None \<and> toUpperCase smb \<in> set PROTECTED_SYMBOLS
                           then Some (warning_text smb addr) else None) \<rparr>))"

text \<open>
  \<^verbatim>\<open>
  async function resolveToken(token, provider) {
      token = token.trim()
      if (token.startsWith('0x') && token.length === 42) return resolveByAddress(token, provider)
      const symbol = token.toUpperCase().replace(/^\$/, '')
      const aliasedSymbol = TOKEN_ALIASES[symbol] || symbol
      if (VERIFIED_TOKENS[aliasedSymbol]) {
          const address = VERIFIED_TOKENS[aliasedSymbol]
          ... symbol(), decimals() ...
          return { address, symbol: onChainSymbol, decimals: Number(decimals), verified: true }
      }
      if (PROTECTED_SYMBOLS.includes(aliasedSymbol)) throw new Error('SECURITY: ...')
      throw new Error('Token ... not found in verified list. ...')
  }
  \<close>
\<close>

definition resolveToken :: "chain \<Rightarrow> string \<Rightarrow> error + token" where
  "resolveToken c input =
     (let tok = trim input in
      if startsWith tok ''0x'' \<and> length tok = 42 then resolveByAddress c tok
      else
        let smb = stripSigil (toUpperCase tok);
            aliasedSymbol = (case map_of TOKEN_ALIASES smb of Some a \<Rightarrow> a | None \<Rightarrow> smb)
        in (case map_of VERIFIED_TOKENS aliasedSymbol of
              Some addr \<Rightarrow>
                (case metadata c addr of
                   None \<Rightarrow> Inl CallFailed
                 | Some (onChainSymbol, dec) \<Rightarrow>
                     Inr \<lparr> address = addr, symbol = onChainSymbol, decimals = dec,
                           verified = True, native = False, warning = None \<rparr>)
            | None \<Rightarrow>
                if aliasedSymbol \<in> set PROTECTED_SYMBOLS then Inl (ProtectedNoVerified smb)
                else Inl (TokenNotFound smb)))"

section \<open>Runs, events and outcomes\<close>

text \<open>
  A run of a script is modelled by the list of its interactions with the outside, in the
  order in which they happen, and its outcome. The interactions that change state on chain
  or at a service are the approval, the swap, the revocation, the registration of
  application data, the submission of an order, the wrapping of ETH and the presignature;
  the others only read (or print).

  An order document of the CoW script carries its amounts as decimal strings; such a string
  is represented by what \<^verbatim>\<open>BigInt\<close> reads in it: \<open>Some n\<close>, or \<open>None\<close> when
  \<^verbatim>\<open>BigInt\<close> throws on it. (\<^verbatim>\<open>n.toString()\<close> is read back as \<open>n\<close>, and \<^verbatim>\<open>"0"\<close> as \<open>0\<close>.)
\<close>

type_synonym bigint_string = "int option"

record order =
  o_sellToken :: string
  o_buyToken :: string
  o_receiver :: string
  o_sellAmount :: bigint_string
  o_buyAmount :: bigint_string
  o_validTo :: int
  o_appData :: string
  o_feeAmount :: bigint_string
  o_kind :: string
  o_partiallyFillable :: bool
  o_sellTokenBalance :: string
  o_buyTokenBalance :: string
  o_signingScheme :: string
  o_signature :: string
  o_from :: string

record order_struct =
  s_sellToken :: string
  s_buyToken :: string
  s_receiver :: string
  s_sellAmount :: int
  s_buyAmount :: int
  s_validTo :: int
  s_appData :: string
  s_feeAmount :: int
  s_kind :: string
  s_partiallyFillable :: bool
  s_sellTokenBalance :: string
  s_buyTokenBalance :: string

datatype event =
    TokenLookup string            \<comment> \<open>\<^verbatim>\<open>resolveToken(reference)\<close>: reads of token metadata\<close>
  | Preflight                     \<comment> \<open>\<^verbatim>\<open>getNetwork\<close> and \<^verbatim>\<open>getCode\<close>\<close>
  | BalanceRead string            \<comment> \<open>\<^verbatim>\<open>balanceOf(safe)\<close> of a token, or \<^verbatim>\<open>getBalance(safe)\<close> for \<open>''native''\<close>\<close>
  | QuoteRequest                  \<comment> \<open>\<^verbatim>\<open>POST /quote\<close> to the quote service\<close>
  | SummaryPrinted
  | AllowanceRead
  | Approval string int           \<comment> \<open>\<^verbatim>\<open>approveForRouter(token, amount)\<close> through the Roles contract\<close>
  | Simulation                    \<comment> \<open>\<^verbatim>\<open>execTransactionWithRole.staticCall\<close>\<close>
  | Swap int                      \<comment> \<open>the swap transaction, with its native value\<close>
  | Revocation string             \<comment> \<open>\<^verbatim>\<open>approveForRouter(token, 0)\<close> of \<^verbatim>\<open>revokeAllowance\<close>\<close>
  | AppDataRegistration           \<comment> \<open>\<^verbatim>\<open>PUT /app_data/{hash}\<close>\<close>
  | OrderSubmission order         \<comment> \<open>\<^verbatim>\<open>POST /orders\<close>\<close>
  | Wrap int                      \<comment> \<open>\<^verbatim>\<open>wrapETH(amount)\<close> through the Roles contract\<close>
  | Presignature order_struct string  \<comment> \<open>\<^verbatim>\<open>cowPreSign(order, orderUid)\<close> through the Roles contract\<close>
  | StatusQuery                   \<comment> \<open>\<^verbatim>\<open>GET /orders/{uid}\<close>\<close>
  | Wait nat                      \<comment> \<open>\<^verbatim>\<open>setTimeout(resolve, ms)\<close>\<close>

fun state_changing :: "event \<Rightarrow> bool" where
  "state_changing (Approval t a) = True"
| "state_changing (Swap v) = True"
| "state_changing (Revocation t) = True"
| "state_changing AppDataRegistration = True"
| "state_changing (OrderSubmission ord) = True"
| "state_changing (Wrap a) = True"
| "state_changing (Presignature st uid) = True"
| "state_changing e = False"

text \<open>
  The outcome of a run: the swap was carried out (\<open>Completed\<close>), the script stopped after
  the summary because \<^verbatim>\<open>--execute\<close> was not given (\<open>QuoteOnly\<close>: \<^verbatim>\<open>process.exit(0)\<close> or
  \<^verbatim>\<open>return\<close>), or it failed (\<open>Failed\<close>: \<^verbatim>\<open>process.exit(1)\<close>, directly or through
  \<^verbatim>\<open>main().catch\<close>).
\<close>

datatype outcome = Completed | QuoteOnly | Failed error

type_synonym 'a run = "event list \<times> (error + 'a)"

definition step :: "event list \<Rightarrow> error + 'a \<Rightarrow> 'a run" where
  "step es r = (es, r)"

definition andThen :: "'a run \<Rightarrow> ('a \<Rightarrow> 'b run) \<Rightarrow> 'b run" where
  "andThen r k =
     (case r of
        (es, Inl e) \<Rightarrow> (es, Inl e)
      | (es, Inr x) \<Rightarrow> (case k x of (es', y) \<Rightarrow> (es @ es', y)))"

definition require :: "'a option \<Rightarrow> error \<Rightarrow> error + 'a" where
  "require x e = (case x of None \<Rightarrow> Inl e | Some v \<Rightarrow> Inr v)"

definition check :: "bool \<Rightarrow> error \<Rightarrow> error + unit" where
  "check ok e = (if ok then Inr () else Inl e)"

text \<open>
  A transaction sent through the Roles contract: rejected, or mined with a status.
  \<open>tx_wait\<close> is \<^verbatim>\<open>await roles.execTransactionWithRole(...)\<close> followed by \<^verbatim>\<open>await tx.wait()\<close>
  and gives the status of the receipt: \<^verbatim>\<open>wait\<close> of ethers rejects when the transaction
  reverted (status 0). \<open>confirmed\<close> is a transaction awaited and nothing more,
  \<open>succeeded\<close> one whose receipt is then tested with \<^verbatim>\<open>receipt.status !== 1\<close>.
\<close>

datatype tx_result = TxRejected | TxMined nat

definition tx_wait :: "tx_result \<Rightarrow> error + nat" where
  "tx_wait t =
     (case t of
        TxRejected \<Rightarrow> Inl CallFailed
      | TxMined st \<Rightarrow> if st = 0 then Inl CallFailed else Inr st)"

definition confirmed :: "tx_result \<Rightarrow> error + unit" where
  "confirmed t = (case tx_wait t of Inl e \<Rightarrow> Inl e | Inr st \<Rightarrow> Inr ())"

definition succeeded :: "tx_result \<Rightarrow> error + unit" where
  "succeeded t =
     (case tx_wait t of
        Inl e \<Rightarrow> Inl e
      | Inr st \<Rightarrow> if st = 1 then Inr () else Inl TransactionFailed)"

definition MaxUint256 :: int where
  "MaxUint256 = 2 ^ 256 - 1"

text \<open>JavaScript truthiness of an optional string: absent and empty are falsy.\<close>

definition truthy :: "string option \<Rightarrow> bool" where
  "truthy x = (case x of None \<Rightarrow> False | Some s \<Rightarrow> s \<noteq> [])"

record config =
  safe :: string
  roles :: string
  roleKey :: string
  zodiacHelpers :: "string option"

record args =
  arg_from :: "string option"
  arg_to :: "string option"
  arg_amount :: "string option"
  arg_slippage :: number
  arg_execute :: bool
  arg_approveMode :: string
  arg_revokeAfter :: bool
  arg_simulate :: bool
  arg_timeout :: "int option"    \<comment> \<open>\<^verbatim>\<open>parseInt\<close> of the argument; \<open>None\<close> is NaN\<close>

text \<open>
  \<^verbatim>\<open>if (!args.from || !args.to || !args.amount)\<close>: an absent and an empty argument are both
  falsy.
\<close>

definition required_args :: "args \<Rightarrow> error + (string \<times> string \<times> string)" where
  "required_args a =
     (case (arg_from a, arg_to a, arg_amount a) of
        (Some f, Some t, Some m) \<Rightarrow>
          if f = [] \<or> t = [] \<or> m = [] then Inl MissingArguments else Inr (f, t, m)
      | _ \<Rightarrow> Inl MissingArguments)"

text \<open>
  The \<^verbatim>\<open>result\<close> object \<^verbatim>\<open>parseArgs\<close> of the clawlett Aerodrome script starts from, before
  it reads the command line:
  \<^verbatim>\<open>
  slippage: 0.05, execute: false, approveMode: 'exact', // exact | max
  revokeAfter: false, simulate: true,
  \<close>
  (\<^verbatim>\<open>0.05\<close> is the double \<open>3602879701896397 / 2 ^ 56\<close>; the script has no timeout.) Of the
  options, only \<^verbatim>\<open>--approve-max\<close> assigns \<^verbatim>\<open>approveMode\<close>, the value \<^verbatim>\<open>'max'\<close>.
\<close>

definition parseArgs_initial :: args where
  "parseArgs_initial =
     \<lparr> arg_from = None, arg_to = None, arg_amount = None,
       arg_slippage = Finite (3602879701896397 / 72057594037927936),
       arg_execute = False, arg_approveMode = ''exact'', arg_revokeAfter = False,
       arg_simulate = True, arg_timeout = None \<rparr>"

section \<open>Quotes of the Aerodrome scripts\<close>

text \<open>
  The JSON document the quote service answers with. \<open>resp_quote\<close> is \<^verbatim>\<open>BigInt(data.quote)\<close>
  (\<open>None\<close> when that throws); \<open>resp_minAmountOut\<close> is \<open>None\<close> when \<^verbatim>\<open>data.minAmountOut\<close>
  is falsy, and otherwise what \<^verbatim>\<open>BigInt\<close> reads in it.
\<close>

record quote_response =
  resp_ok :: bool
  resp_error :: "string option"
  resp_quote :: bigint_string
  resp_minAmountOut :: "bigint_string option"
  resp_calldata :: "string option"
  resp_value :: "int option"
  resp_isMultiHop :: bool

record quote =
  q_amountOut :: int
  q_minAmountOut :: "int option"
  q_calldata :: "string option"
  q_value :: "int option"
  q_isMultiHop :: bool

text \<open>
  claw-wallet:
  \<^verbatim>\<open>
  const data = await response.json()
  if (!response.ok || data.error) throw new Error(data.error || 'Quote failed')
  return { amountOut: BigInt(data.quote), route: data.path, isMultiHop: data.isMultiHop }
  \<close>
  The argument is \<open>None\<close> when \<^verbatim>\<open>fetch\<close> or \<^verbatim>\<open>response.json()\<close> rejects.
\<close>

definition getQuote_claw_wallet :: "quote_response option \<Rightarrow> error + quote" where
  "getQuote_claw_wallet r =
     (case r of
        None \<Rightarrow> Inl CallFailed
      | Some d \<Rightarrow>
          if \<not> resp_ok d \<or> truthy (resp_error d) then Inl QuoteFailed
          else (case resp_quote d of
                  None \<Rightarrow> Inl NotABigInt
                | Some n \<Rightarrow>
                    Inr \<lparr> q_amountOut = n, q_minAmountOut = None, q_calldata = None, q_value = None,
                          q_isMultiHop = resp_isMultiHop d \<rparr>))"

text \<open>
  clawlett:
  \<^verbatim>\<open>
  const data = parseJsonSafe(body, 'quote API response')
      throw new Error(data.error || `Quote failed (${response.status})`)
  }
  return {
      amountOut: BigInt(data.quote),
      minAmountOut: data.minAmountOut ? BigInt(data.minAmountOut) : null,
      calldata: data.calldata,
  }
  \<close>
  The line with the condition of the \<^verbatim>\<open>throw\<close> is not in the source; the condition of
  claw-wallet's \<^verbatim>\<open>getQuote\<close>, which throws the same message, is used. \<^verbatim>\<open>main\<close> also reads
  \<^verbatim>\<open>quote.value\<close> and \<^verbatim>\<open>quote.isMultiHop\<close>; they are taken from the response.
\<close>

definition getQuote_clawlett :: "quote_response option \<Rightarrow> error + quote" where
  "getQuote_clawlett r =
     (case r of
        None \<Rightarrow> Inl CallFailed
      | Some d \<Rightarrow>
          if \<not> resp_ok d \<or> truthy (resp_error d) then Inl QuoteFailed
          else (case resp_quote d of
                  None \<Rightarrow> Inl NotABigInt
                | Some n \<Rightarrow>
                    (case resp_minAmountOut d of
                       Some None \<Rightarrow> Inl NotABigInt
                     | Some (Some m) \<Rightarrow>
                         Inr \<lparr> q_amountOut = n, q_minAmountOut = Some m,
                               q_calldata = resp_calldata d, q_value = resp_value d,
                               q_isMultiHop = resp_isMultiHop d \<rparr>
                     | None \<Rightarrow>
                         Inr \<lparr> q_amountOut = n, q_minAmountOut = None,
                               q_calldata = resp_calldata d, q_value = resp_value d,
                               q_isMultiHop = resp_isMultiHop d \<rparr>)))"

text \<open>
  \<^verbatim>\<open>
  function requireHexData(data, label) {
      if (typeof data !== 'string' || !data.startsWith('0x') || (data.length % 2) !== 0) {
          throw new Error(`${label} must be valid hex data`)
      }
  }
  \<close>
  \<open>None\<close> is a value that is not a string.
\<close>

definition requireHexData :: "string option \<Rightarrow> string \<Rightarrow> error + unit" where
  "requireHexData data label =
     (case data of
        None \<Rightarrow> Inl (InvalidHexData label)
      | Some d \<Rightarrow>
          if \<not> startsWith d ''0x'' \<or> length d mod 2 \<noteq> 0 then Inl (InvalidHexData label)
          else Inr ())"

text \<open>
  \<^verbatim>\<open>
  function validateQuotePayload({ quote, amountIn, safeAddress, isETHIn }) {
      if (!quote) throw new Error('Quote is missing')
      requireHexData(quote.calldata, 'quote.calldata')
      const ethValue = quote.value || 0n
      if (!isETHIn && ethValue !== 0n) {
          throw new Error(`Unsafe quote: ERC20-in swap returned non-zero ETH value (${ethValue})`)
      }
      if (isETHIn && ethValue > amountIn) {
          throw new Error(`Unsafe quote: ETH value (${ethValue}) exceeds amountIn (${amountIn})`)
      }
          throw new Error('Invalid Safe recipient address')
  \<close>
  The line with the condition of the last \<^verbatim>\<open>throw\<close> is not in the source: whether the Safe
  address is rejected is the parameter \<open>recipientRejected\<close>.
\<close>

definition ethValue_of :: "quote \<Rightarrow> int" where
  "ethValue_of q = (case q_value q of None \<Rightarrow> 0 | Some v \<Rightarrow> v)"

definition validateQuotePayload :: "quote option \<Rightarrow> int \<Rightarrow> bool \<Rightarrow> bool \<Rightarrow> error + unit" where
  "validateQuotePayload qo amountIn recipientRejected isETHIn =
     (case qo of
        None \<Rightarrow> Inl QuoteMissing
      | Some q \<Rightarrow>
          (case requireHexData (q_calldata q) ''quote.calldata'' of
             Inl e \<Rightarrow> Inl e
           | Inr u \<Rightarrow>
               let ethValue = ethValue_of q in
               if \<not> isETHIn \<and> ethValue \<noteq> 0 then Inl (UnsafeQuoteErc20Value ethValue)
               else if isETHIn \<and> ethValue > amountIn then Inl (UnsafeQuoteEthValue ethValue amountIn)
               else if recipientRejected then Inl InvalidSafeRecipient
               else Inr ()))"

fun unsafe_quote_error :: "error \<Rightarrow> bool" where
  "unsafe_quote_error (UnsafeQuoteErc20Value v) = True"
| "unsafe_quote_error (UnsafeQuoteEthValue v a) = True"
| "unsafe_quote_error e = False"

section \<open>Approvals\<close>

text \<open>
  clawlett (the function \<^verbatim>\<open>main\<close> calls as \<^verbatim>\<open>maybeApprove\<close>; the first line of its header
  is not in the source):
  \<^verbatim>\<open>
      provider, safeAddress, tokenIn, amountIn, roleKey, approveMode,
  }) {
      if (tokenIn.native) return
      const tokenContract = new ethers.Contract(tokenIn.address, ERC20_ABI, provider)
      let allowance = 0n
      try {
          allowance = await tokenContract.allowance(safeAddress, CONTRACTS.AeroUniversalRouter)
      } catch {
          allowance = 0n
      }
      if (allowance >= amountIn) return
      const approvalAmount = approveMode === 'max' ? ethers.MaxUint256 : amountIn
      const approveData = approvalInterface.encodeFunctionData('approveForRouter', [
          approvalAmount,
      ])
      const tx = await roles.execTransactionWithRole(CONTRACTS.ZodiacHelpers, 0n, approveData, 1, roleKey, true)
      await tx.wait()
  }
  \<close>
  The token argument of \<^verbatim>\<open>approveForRouter(address token, uint256 amount)\<close> is not in the
  source of \<^verbatim>\<open>maybeApprove\<close>; it is \<^verbatim>\<open>tokenIn.address\<close> as in \<^verbatim>\<open>revokeAllowance\<close>.
\<close>

definition current_allowance :: "chain \<Rightarrow> string \<Rightarrow> int" where
  "current_allowance c t = (case allowance c t of None \<Rightarrow> 0 | Some a \<Rightarrow> a)"

definition maybeApprove :: "chain \<Rightarrow> tx_result \<Rightarrow> token \<Rightarrow> int \<Rightarrow> string \<Rightarrow> unit run" where
  "maybeApprove c approveTx tokenIn amountIn approveMode =
     (if native tokenIn then step [] (Inr ())
      else if current_allowance c (address tokenIn) \<ge> amountIn then step [AllowanceRead] (Inr ())
      else
        let approvalAmount = (if approveMode = ''max'' then MaxUint256 else amountIn)
        in step [AllowanceRead, Approval (address tokenIn) approvalAmount] (confirmed approveTx))"

text \<open>
  \<^verbatim>\<open>
  async function revokeAllowance({
      tokenIn,
      roleKey,
  }) {
      if (tokenIn.native) return
      const revokeData = approvalInterface.encodeFunctionData('approveForRouter', [
          tokenIn.address,
          0n,
      const tx = await roles.execTransactionWithRole(
          0n,
          revokeData,
          roleKey,
      )
      await tx.wait()
  }
  \<close>
\<close>

definition revokeAllowance :: "tx_result \<Rightarrow> token \<Rightarrow> unit run" where
  "revokeAllowance revokeTx tokenIn =
     (if native tokenIn then step [] (Inr ())
      else step [Revocation (address tokenIn)] (confirmed revokeTx))"

text \<open>
  claw-wallet, in \<^verbatim>\<open>main\<close>:
  \<^verbatim>\<open>
  if (!isETHIn) {
      let allowance = 0n
      try { allowance = await tokenContract.allowance(safeAddress, CONTRACTS.AeroRouter) } catch { }
      if (allowance < amountIn) {
          ... approveForRouter(tokenIn.address, ethers.MaxUint256) ...
          const approveTx = await roles.execTransactionWithRole(CONTRACTS.ApprovalHelper, 0n, approveData, 1, config.roleKey, true)
          await approveTx.wait()
      }
  }
  \<close>
\<close>

definition approve_claw_wallet :: "chain \<Rightarrow> tx_result \<Rightarrow> bool \<Rightarrow> token \<Rightarrow> int \<Rightarrow> unit run" where
  "approve_claw_wallet c approveTx isETHIn tokenIn amountIn =
     (if isETHIn then step [] (Inr ())
      else if current_allowance c (address tokenIn) < amountIn
        then step [AllowanceRead, Approval (address tokenIn) MaxUint256] (confirmed approveTx)
      else step [AllowanceRead] (Inr ()))"

section \<open>The claw-wallet script\<close>

text \<open>What a run has established when it prints the summary.\<close>

record swap_context =
  ctx_config :: config
  ctx_tokenIn :: token
  ctx_tokenOut :: token
  ctx_amountIn :: int
  ctx_quote :: quote
  ctx_minAmountOut :: int


text \<open>
  What a run of \<^verbatim>\<open>claw-wallet/scripts/swap.js\<close> meets outside: the configuration file
  (\<open>None\<close> when \<^verbatim>\<open>loadConfig\<close> throws), the chain, the answer of the quote service
  (\<open>None\<close> when the request rejects), the agent's key (\<open>None\<close> when the file is absent,
  \<open>Some False\<close> when \<^verbatim>\<open>new ethers.Wallet\<close> rejects it), whether the route of the quote
  can be encoded into swap call data, the two transactions, and the last balance read.
\<close>

record claw_wallet_world =
  cw_config :: "config option"
  cw_chain :: chain
  cw_quoteService :: "quote_response option"
  cw_agentKey :: "bool option"
  cw_swapEncodes :: bool
  cw_approveTx :: tx_result
  cw_swapTx :: tx_result
  cw_finalBalance :: "int option"

definition agent_wallet :: "bool option \<Rightarrow> error + unit" where
  "agent_wallet k =
     (case k of None \<Rightarrow> Inl AgentKeyNotFound | Some ok \<Rightarrow> if ok then Inr () else Inl CallFailed)"

text \<open>
  \<^verbatim>\<open>
  if (tokenIn.address.toLowerCase() === CONTRACTS.WETH.toLowerCase()) {
      balance = await provider.getBalance(safeAddress)
  } else {
      balance = await tokenContract.balanceOf(safeAddress)
  }
  \<close>
\<close>

definition is_WETH :: "token \<Rightarrow> bool" where
  "is_WETH t = (toLowerCase (address t) = toLowerCase WETH)"

definition checked_balance_claw_wallet :: "chain \<Rightarrow> token \<Rightarrow> int run" where
  "checked_balance_claw_wallet c tokenIn =
     (if is_WETH tokenIn then step [BalanceRead ''native''] (require (nativeBalance c) CallFailed)
      else step [BalanceRead (address tokenIn)] (require (balanceOf c (address tokenIn)) CallFailed))"

text \<open>
  \<^verbatim>\<open>main\<close> up to and including the summary: arguments, configuration, the two tokens, the
  amount, the balance check, the quote, the minimum output, the summary.
\<close>

definition quote_phase_claw_wallet :: "claw_wallet_world \<Rightarrow> args \<Rightarrow> swap_context run" where
  "quote_phase_claw_wallet w a =
     andThen (step [] (required_args a)) (\<lambda>(f, t, m).
     andThen (step [] (require (cw_config w) ConfigNotFound)) (\<lambda>cfg.
     andThen (step [TokenLookup f] (resolveToken (cw_chain w) f)) (\<lambda>tokenIn.
     andThen (step [TokenLookup t] (resolveToken (cw_chain w) t)) (\<lambda>tokenOut.
     andThen (step [] (require (parseUnits (cw_chain w) m (decimals tokenIn)) InvalidAmount)) (\<lambda>amountIn.
     andThen (checked_balance_claw_wallet (cw_chain w) tokenIn) (\<lambda>balance.
     andThen (step [] (check (\<not> balance < amountIn) InsufficientBalance)) (\<lambda>u.
     andThen (step [QuoteRequest] (getQuote_claw_wallet (cw_quoteService w))) (\<lambda>q.
     andThen (step [] (minAmountOut_claw_wallet (q_amountOut q) (arg_slippage a))) (\<lambda>minOut.
     step [SummaryPrinted]
       (Inr \<lparr> ctx_config = cfg, ctx_tokenIn = tokenIn, ctx_tokenOut = tokenOut,
              ctx_amountIn = amountIn, ctx_quote = q, ctx_minAmountOut = minOut \<rparr>))))))))))"

text \<open>
  \<^verbatim>\<open>main\<close> after \<^verbatim>\<open>--execute\<close>: the agent's wallet, the approval, the swap transaction
  (\<^verbatim>\<open>isETHIn ? amountIn : 0n\<close> as its value), the receipt, the new balance.
\<close>

definition execute_phase_claw_wallet :: "claw_wallet_world \<Rightarrow> swap_context \<Rightarrow> unit run" where
  "execute_phase_claw_wallet w ctx =
     (let tokenIn = ctx_tokenIn ctx; tokenOut = ctx_tokenOut ctx; amountIn = ctx_amountIn ctx;
          isETHIn = is_WETH tokenIn; isETHOut = is_WETH tokenOut
      in
     andThen (step [] (agent_wallet (cw_agentKey w))) (\<lambda>u.
     andThen (approve_claw_wallet (cw_chain w) (cw_approveTx w) isETHIn tokenIn amountIn) (\<lambda>u.
     andThen (step [] (check (cw_swapEncodes w) CallFailed)) (\<lambda>u.
     andThen (step [Swap (if isETHIn then amountIn else 0)] (succeeded (cw_swapTx w))) (\<lambda>u.
     step [BalanceRead (if isETHOut then ''native'' else address tokenOut)]
       (case cw_finalBalance w of None \<Rightarrow> Inl CallFailed | Some b \<Rightarrow> Inr ()))))))"

text \<open>
  A whole run: without \<^verbatim>\<open>--execute\<close> the script prints \<^verbatim>\<open>QUOTE ONLY\<close> and calls
  \<^verbatim>\<open>process.exit(0)\<close>.
\<close>

definition finish :: "bool \<Rightarrow> 'c run \<Rightarrow> ('c \<Rightarrow> unit run) \<Rightarrow> event list \<times> outcome" where
  "finish execute quoted execution =
     (case quoted of
        (es, Inl e) \<Rightarrow> (es, Failed e)
      | (es, Inr ctx) \<Rightarrow>
          if \<not> execute then (es, QuoteOnly)
          else (case execution ctx of
                  (es', Inl e) \<Rightarrow> (es @ es', Failed e)
                | (es', Inr u) \<Rightarrow> (es @ es', Completed)))"

definition main_claw_wallet :: "claw_wallet_world \<Rightarrow> args \<Rightarrow> event list \<times> outcome" where
  "main_claw_wallet w a =
     finish (arg_execute a) (quote_phase_claw_wallet w a) (execute_phase_claw_wallet w)"

section \<open>The Aerodrome script of clawlett\<close>

text \<open>
  The source of this script has gaps: single lines are absent. Where an absent line
  decides behaviour, the model says so and takes the line from the sibling script or from
  the specification. Token resolution of this script reads the chain and nothing else; its
  registry is among the gaps, so what \<^verbatim>\<open>resolveToken\<close> returns for a reference is taken
  as it comes (\<open>ae_resolve\<close>).
\<close>

record aerodrome_world =
  ae_config :: "config option"
  ae_chainId :: "nat option"
  ae_hasCode :: "string \<Rightarrow> bool option"
  ae_resolve :: "string \<Rightarrow> error + token"
  ae_chain :: chain
  ae_quoteService :: "quote_response option"
  ae_recipientRejected :: bool
  ae_agentKey :: "bool option"
  ae_approveTx :: tx_result
  ae_simulation :: bool
  ae_swapTx :: tx_result
  ae_revokeTx :: tx_result
  ae_finalBalance :: "int option"

definition CHAIN_ID :: nat where
  "CHAIN_ID = 8453"

definition AeroUniversalRouter :: string where
  "AeroUniversalRouter = ''0x6Df1c91424F79E40E33B1A48F0687B666bE71075''"

definition ZodiacHelpers :: string where
  "ZodiacHelpers = ''0xc235D2475E4424F277B53D19724E2453a8686C54''"

text \<open>
  The function \<^verbatim>\<open>main\<close> calls as \<^verbatim>\<open>preflight(provider, config, safeAddress)\<close>; its header
  and the head of its loop over \<^verbatim>\<open>requiredAddresses\<close> are not in the source:
  \<^verbatim>\<open>
  const network = await provider.getNetwork()
  const chainId = Number(network.chainId)
  if (chainId !== CHAIN_ID) throw new Error(`Wrong chain: ...`)
  const requiredAddresses = [ Safe, Roles, AeroUniversalRouter, ZodiacHelpers ]
      const code = await provider.getCode(item.address)
      if (!code || code === '0x') {
          throw new Error(`Missing contract bytecode at ${item.name}: ${item.address}`)
      }
  \<close>
\<close>

fun check_bytecode :: "(string \<Rightarrow> bool option) \<Rightarrow> string list \<Rightarrow> error + unit" where
  "check_bytecode hasCode [] = Inr ()"
| "check_bytecode hasCode (a # as) =
     (case hasCode a of
        None \<Rightarrow> Inl CallFailed
      | Some deployed \<Rightarrow> if deployed then check_bytecode hasCode as else Inl PreflightFailed)"

definition preflight :: "aerodrome_world \<Rightarrow> config \<Rightarrow> error + unit" where
  "preflight w cfg =
     (case ae_chainId w of
        None \<Rightarrow> Inl CallFailed
      | Some n \<Rightarrow>
          if n \<noteq> CHAIN_ID then Inl PreflightFailed
          else check_bytecode (ae_hasCode w) [safe cfg, roles cfg, AeroUniversalRouter, ZodiacHelpers])"

text \<open>
  \<^verbatim>\<open>
  if (tokenIn.native) {
      balance = await provider.getBalance(safeAddress)
  } else {
      balance = await inContract.balanceOf(safeAddress)
  }
      throw new Error(`Insufficient balance. Have ...`)
  }
  \<close>
  The condition of the \<^verbatim>\<open>throw\<close> is not in the source; it is \<^verbatim>\<open>balance < amountIn\<close> as in
  the two other scripts. The line that computes \<^verbatim>\<open>amountIn\<close> is not in the source either;
  it is \<^verbatim>\<open>ethers.parseUnits(args.amount, tokenIn.decimals)\<close> as in the two other scripts.
\<close>

definition checked_balance_clawlett :: "chain \<Rightarrow> token \<Rightarrow> int run" where
  "checked_balance_clawlett c tokenIn =
     (if native tokenIn then step [BalanceRead ''native''] (require (nativeBalance c) CallFailed)
      else step [BalanceRead (address tokenIn)] (require (balanceOf c (address tokenIn)) CallFailed))"

text \<open>
  \<^verbatim>\<open>main\<close> up to and including the summary: arguments (the test before
  \<^verbatim>\<open>throw new Error('--from, --to, and --amount are required')\<close> is not in the source; it is
  the one of the two other scripts), slippage, configuration, preflight, the two tokens,
  the amount, the balance check, the quote, its validation (the call names \<^verbatim>\<open>amountIn\<close>,
  \<^verbatim>\<open>safeAddress\<close> and \<^verbatim>\<open>isETHIn: tokenIn.native\<close>; the line that passes the quote is not in
  the source), the minimum output, the summary.
\<close>

definition quote_phase_clawlett :: "aerodrome_world \<Rightarrow> args \<Rightarrow> swap_context run" where
  "quote_phase_clawlett w a =
     andThen (step [] (required_args a)) (\<lambda>(f, t, m).
     andThen (step [] (parseSlippageBps (arg_slippage a))) (\<lambda>slippageBps.
     andThen (step [] (require (ae_config w) ConfigNotFound)) (\<lambda>cfg.
     andThen (step [Preflight] (preflight w cfg)) (\<lambda>u.
     andThen (step [TokenLookup f] (ae_resolve w f)) (\<lambda>tokenIn.
     andThen (step [TokenLookup t] (ae_resolve w t)) (\<lambda>tokenOut.
     andThen (step [] (require (parseUnits (ae_chain w) m (decimals tokenIn)) InvalidAmount)) (\<lambda>amountIn.
     andThen (checked_balance_clawlett (ae_chain w) tokenIn) (\<lambda>balance.
     andThen (step [] (check (\<not> balance < amountIn) InsufficientBalance)) (\<lambda>u.
     andThen (step [QuoteRequest] (getQuote_clawlett (ae_quoteService w))) (\<lambda>q.
     andThen (step [] (validateQuotePayload (Some q) amountIn (ae_recipientRejected w) (native tokenIn))) (\<lambda>u.
     andThen (step [] (minAmountOut_clawlett (q_minAmountOut q) (q_amountOut q) slippageBps)) (\<lambda>minOut.
     step [SummaryPrinted]
       (Inr \<lparr> ctx_config = cfg, ctx_tokenIn = tokenIn, ctx_tokenOut = tokenOut,
              ctx_amountIn = amountIn, ctx_quote = q, ctx_minAmountOut = minOut \<rparr>)))))))))))))"

text \<open>
  \<^verbatim>\<open>
  let swapCalldata = quote.calldata
  if (swapCalldata.startsWith('0x3593564c')) {
      swapCalldata = '0xf23674e8' + swapCalldata.slice(10)
  }
  requireHexData(swapCalldata, 'swapCalldata')
  \<close>
\<close>

definition swapCalldata_of :: "quote \<Rightarrow> error + string" where
  "swapCalldata_of q =
     (case q_calldata q of
        None \<Rightarrow> Inl MalformedResponse
      | Some d \<Rightarrow>
          let d' = (if startsWith d ''0x3593564c'' then ''0xf23674e8'' @ drop 10 d else d)
          in (case requireHexData (Some d') ''swapCalldata'' of
                Inl e \<Rightarrow> Inl e
              | Inr u \<Rightarrow> Inr d'))"

text \<open>
  \<^verbatim>\<open>main\<close> after \<^verbatim>\<open>--execute\<close>. The condition around \<^verbatim>\<open>simulateExecution\<close> is not in the
  source; it is the flag that \<^verbatim>\<open>--no-simulate\<close> clears. The statement that ends the
  \<^verbatim>\<open>catch\<close> of \<^verbatim>\<open>simulateExecution\<close> is not in the source either; a failed simulation ends
  the run, as the specification says of the pre-execution simulation.
\<close>

definition execute_phase_clawlett :: "aerodrome_world \<Rightarrow> args \<Rightarrow> swap_context \<Rightarrow> unit run" where
  "execute_phase_clawlett w a ctx =
     (let tokenIn = ctx_tokenIn ctx; tokenOut = ctx_tokenOut ctx; amountIn = ctx_amountIn ctx;
          ethValue = (if native tokenIn then amountIn else 0)
      in
     andThen (step [] (agent_wallet (ae_agentKey w))) (\<lambda>u.
     andThen (step [] (swapCalldata_of (ctx_quote ctx))) (\<lambda>swapCalldata.
     andThen (maybeApprove (ae_chain w) (ae_approveTx w) tokenIn amountIn (arg_approveMode a)) (\<lambda>u.
     andThen (if arg_simulate a then step [Simulation] (check (ae_simulation w) SimulationFailed)
              else step [] (Inr ())) (\<lambda>u.
     andThen (step [Swap ethValue] (succeeded (ae_swapTx w))) (\<lambda>u.
     andThen (if arg_revokeAfter a then revokeAllowance (ae_revokeTx w) tokenIn
              else step [] (Inr ())) (\<lambda>u.
     step [BalanceRead (if native tokenOut then ''native'' else address tokenOut)]
       (case ae_finalBalance w of None \<Rightarrow> Inl CallFailed | Some b \<Rightarrow> Inr ()))))))))"

definition main_clawlett :: "aerodrome_world \<Rightarrow> args \<Rightarrow> event list \<times> outcome" where
  "main_clawlett w a =
     finish (arg_execute a) (quote_phase_clawlett w a) (execute_phase_clawlett w a)"

section \<open>The CoW Protocol script of clawlett\<close>

subsection \<open>Order submission\<close>

text \<open>
  The \<^verbatim>\<open>quote\<close> object of the answer to \<^verbatim>\<open>POST /api/v1/quote\<close>. The three amounts are
  decimal strings (see \<open>bigint_string\<close>); \<^verbatim>\<open>receiver\<close> and the two balance types may be
  absent.
\<close>

record cow_quote =
  cq_sellToken :: string
  cq_buyToken :: string
  cq_receiver :: "string option"
  cq_sellAmount :: bigint_string
  cq_buyAmount :: bigint_string
  cq_feeAmount :: bigint_string
  cq_kind :: string
  cq_partiallyFillable :: bool
  cq_sellTokenBalance :: "string option"
  cq_buyTokenBalance :: "string option"

text \<open>\<^verbatim>\<open>x || d\<close> for an optional string \<^verbatim>\<open>x\<close>.\<close>

definition or_else :: "string option \<Rightarrow> string \<Rightarrow> string" where
  "or_else x d = (case x of None \<Rightarrow> d | Some v \<Rightarrow> if v = [] then d else v)"

text \<open>
  \<^verbatim>\<open>Math.floor(Date.now() / 1000) + (timeoutSeconds || 1800)\<close>, with the clock in
  milliseconds; NaN and 0 are falsy.
\<close>

definition validTo_of :: "nat \<Rightarrow> int option \<Rightarrow> int" where
  "validTo_of now timeoutSeconds =
     int (now div 1000) + (case timeoutSeconds of None \<Rightarrow> 1800 | Some t \<Rightarrow> if t = 0 then 1800 else t)"

text \<open>
  \<^verbatim>\<open>
  async function submitCowOrder(quoteResponse, safeAddress, timeoutSeconds) {
      const q = quoteResponse.quote
      const validTo = Math.floor(Date.now() / 1000) + (timeoutSeconds || 1800)
      ... buySlippage as above ...
      const discountedBuyAmount = (BigInt(q.buyAmount) - buySlippage).toString()
      const slippageBips = Number(buySlippage * 10000n / BigInt(q.buyAmount))
      const appData = await buildAppData(slippageBips)
      const order = {
          sellToken: q.sellToken, buyToken: q.buyToken, receiver: q.receiver || safeAddress,
          sellAmount: q.sellAmount, buyAmount: discountedBuyAmount, validTo, appData,
          feeAmount: "0",
          kind: q.kind, partiallyFillable: q.partiallyFillable || false,
          sellTokenBalance: q.sellTokenBalance || 'erc20',
          buyTokenBalance: q.buyTokenBalance || 'erc20',
          signingScheme: 'presign', signature: safeAddress, from: safeAddress,
      }
      const response = await fetch(`${COW_API_BASE}/api/v1/orders`, { method: 'POST', ... })
      const data = await response.json()
      if (!response.ok) throw new Error(`CoW order submission failed: ...`)
      return { orderUid: data, order }
  }
  \<close>
  \<^verbatim>\<open>buildAppData\<close> hashes a document that holds \<^verbatim>\<open>slippageBips\<close> (the hash is the parameter
  \<open>appDataHash\<close>) and registers it with \<^verbatim>\<open>PUT\<close>, ignoring a failure. \<open>orderService\<close> is the
  answer to the \<^verbatim>\<open>POST\<close>: \<open>None\<close> when the request rejects, otherwise \<^verbatim>\<open>response.ok\<close>
  and the body.
\<close>

definition build_order :: "cow_quote \<Rightarrow> string \<Rightarrow> int \<Rightarrow> int \<Rightarrow> string \<Rightarrow> order" where
  "build_order q safeAddress discountedBuyAmount validTo appData =
     \<lparr> o_sellToken = cq_sellToken q, o_buyToken = cq_buyToken q,
       o_receiver = or_else (cq_receiver q) safeAddress,
       o_sellAmount = cq_sellAmount q, o_buyAmount = Some discountedBuyAmount,
       o_validTo = validTo, o_appData = appData,
       o_feeAmount = Some 0,
       o_kind = cq_kind q, o_partiallyFillable = cq_partiallyFillable q,
       o_sellTokenBalance = or_else (cq_sellTokenBalance q) ''erc20'',
       o_buyTokenBalance = or_else (cq_buyTokenBalance q) ''erc20'',
       o_signingScheme = ''presign'', o_signature = safeAddress, o_from = safeAddress \<rparr>"

definition submitCowOrder ::
  "nat \<Rightarrow> (int \<Rightarrow> string) \<Rightarrow> (bool \<times> string) option \<Rightarrow>
   cow_quote option \<Rightarrow> string \<Rightarrow> int option \<Rightarrow> (string \<times> order) run" where
  "submitCowOrder now appDataHash orderService qo safeAddress timeoutSeconds =
     andThen (step [] (require qo MalformedResponse)) (\<lambda>q.
     andThen (step [] (require (cq_feeAmount q) NotABigInt)) (\<lambda>f.
     andThen (step [] (require (cq_sellAmount q) NotABigInt)) (\<lambda>s.
     andThen (step [] (require (cq_buyAmount q) NotABigInt)) (\<lambda>b.
     andThen (step [] (buySlippage f s b)) (\<lambda>slip.
     andThen (step [] (bigint_div (slip * 10000) b)) (\<lambda>slippageBips.
     let ord = build_order q safeAddress (b - slip) (validTo_of now timeoutSeconds)
                 (appDataHash slippageBips)
     in step [AppDataRegistration, OrderSubmission ord]
          (case orderService of
             None \<Rightarrow> Inl CallFailed
           | Some (ok, data) \<Rightarrow> if ok then Inr (data, ord) else Inl OrderSubmissionFailed)))))))"

subsection \<open>The presigned struct\<close>

definition KIND_SELL :: string where
  "KIND_SELL = ''0xf3b277728b3fee749481eb3e0b3b48980dbbab78658fc419025cb16eee346775''"

definition KIND_BUY :: string where
  "KIND_BUY = ''0x6ed88e868af0a1983e3886d5f3e95a2fafbd6c3450bc229e27342283dc429ccc''"

definition BALANCE_ERC20 :: string where
  "BALANCE_ERC20 = ''0x5a28e9363bb942b639270062aa6bb295f434bcdfc42c97267bf003f272060dc9''"

definition kindToBytes32 :: "string \<Rightarrow> error + string" where
  "kindToBytes32 kind =
     (if kind = ''sell'' then Inr KIND_SELL
      else if kind = ''buy'' then Inr KIND_BUY
      else Inl (UnknownOrderKind kind))"

definition balanceToBytes32 :: "string \<Rightarrow> error + string" where
  "balanceToBytes32 balance =
     (if balance = ''erc20'' then Inr BALANCE_ERC20 else Inl (UnknownBalanceType balance))"

text \<open>
  In \<^verbatim>\<open>main\<close>:
  \<^verbatim>\<open>
  const orderStruct = {
      sellToken: order.sellToken, buyToken: order.buyToken,
      receiver: order.receiver || safeAddress,
      sellAmount: BigInt(order.sellAmount), buyAmount: BigInt(order.buyAmount),
      validTo: order.validTo, appData: order.appData,
      feeAmount: 0n,
      kind: kindToBytes32(order.kind),
      partiallyFillable: order.partiallyFillable || false,
      sellTokenBalance: balanceToBytes32(order.sellTokenBalance || 'erc20'),
      buyTokenBalance: balanceToBytes32(order.buyTokenBalance || 'erc20'),
  }
  \<close>
\<close>

definition orderStruct_of :: "order \<Rightarrow> string \<Rightarrow> error + order_struct" where
  "orderStruct_of ord safeAddress =
     (case o_sellAmount ord of None \<Rightarrow> Inl NotABigInt | Some sa \<Rightarrow>
     (case o_buyAmount ord of None \<Rightarrow> Inl NotABigInt | Some ba \<Rightarrow>
     (case kindToBytes32 (o_kind ord) of Inl e \<Rightarrow> Inl e | Inr k \<Rightarrow>
     (case balanceToBytes32 (or_else (Some (o_sellTokenBalance ord)) ''erc20'') of
        Inl e \<Rightarrow> Inl e | Inr sb \<Rightarrow>
     (case balanceToBytes32 (or_else (Some (o_buyTokenBalance ord)) ''erc20'') of
        Inl e \<Rightarrow> Inl e | Inr bb \<Rightarrow>
        Inr \<lparr> s_sellToken = o_sellToken ord, s_buyToken = o_buyToken ord,
              s_receiver = or_else (Some (o_receiver ord)) safeAddress,
              s_sellAmount = sa, s_buyAmount = ba,
              s_validTo = o_validTo ord, s_appData = o_appData ord,
              s_feeAmount = 0,
              s_kind = k, s_partiallyFillable = o_partiallyFillable ord,
              s_sellTokenBalance = sb, s_buyTokenBalance = bb \<rparr>)))))"

subsection \<open>Polling\<close>

text \<open>
  \<^verbatim>\<open>
  async function pollOrderStatus(orderUid, timeoutMs) {
      const startTime = Date.now()
      const pollInterval = 5000
      while (Date.now() - startTime < timeoutMs) {
          const response = await fetch(`${COW_API_BASE}/api/v1/orders/${orderUid}`)
          if (response.ok) {
              const order = await response.json()
              const status = order.status
              if (status === 'fulfilled') { return { status: 'fulfilled', order } }
              else if (status === 'expired') { return { status: 'expired', order } }
              else if (status === 'cancelled') { return { status: 'cancelled', order } }
          }
          await new Promise(resolve => setTimeout(resolve, pollInterval))
      }
      return { status: 'timeout' }
  }
  \<close>
  The clock is injected: the \<open>i\<close>-th status query takes \<open>fetchLatency i\<close> milliseconds and
  is answered by \<open>pollResponse i\<close>, and the \<open>i\<close>-th timer fires \<open>timerOvershoot i\<close>
  milliseconds after the \<open>pollInterval\<close> it was set to. \<open>elapsed\<close> is
  \<^verbatim>\<open>Date.now() - startTime\<close> at the loop test. The loop returns the queries and waits it made,
  in order, and its result.
\<close>

datatype poll_response =
    FetchRejects                \<comment> \<open>\<^verbatim>\<open>fetch\<close> or \<^verbatim>\<open>response.json()\<close> rejects\<close>
  | HttpError                   \<comment> \<open>\<^verbatim>\<open>response.ok\<close> is false\<close>
  | HttpOk string               \<comment> \<open>\<^verbatim>\<open>order.status\<close>\<close>

datatype poll_status = Fulfilled | Expired | Cancelled | Timeout

record poll_env =
  fetchLatency :: "nat \<Rightarrow> nat"
  pollResponse :: "nat \<Rightarrow> poll_response"
  timerOvershoot :: "nat \<Rightarrow> nat"

definition pollInterval :: nat where
  "pollInterval = 5000"

definition terminal_status :: "poll_response \<Rightarrow> (error + poll_status) option" where
  "terminal_status r =
     (case r of
        FetchRejects \<Rightarrow> Some (Inl CallFailed)
      | HttpError \<Rightarrow> None
      | HttpOk st \<Rightarrow>
          if st = ''fulfilled'' then Some (Inr Fulfilled)
          else if st = ''expired'' then Some (Inr Expired)
          else if st = ''cancelled'' then Some (Inr Cancelled)
          else None)"

function pollLoop :: "poll_env \<Rightarrow> int \<Rightarrow> nat \<Rightarrow> nat \<Rightarrow> event list \<times> (error + poll_status)" where
  "pollLoop env timeoutMs elapsed i =
     (if int elapsed < timeoutMs then
        (case terminal_status (pollResponse env i) of
           Some r \<Rightarrow> ([StatusQuery], r)
         | None \<Rightarrow>
             (case pollLoop env timeoutMs
                     (elapsed + fetchLatency env i + pollInterval + timerOvershoot env i) (Suc i)
              of (es, r) \<Rightarrow> (StatusQuery # Wait pollInterval # es, r)))
      else ([], Inr Timeout))"
  by pat_completeness auto
termination
  by (relation "measure (\<lambda>(env, timeoutMs, elapsed, i). nat (timeoutMs - int elapsed))")
     (auto simp: pollInterval_def)

declare pollLoop.simps [simp del]

text \<open>
  \<^verbatim>\<open>pollOrderStatus(orderUid, args.timeout * 1000)\<close>: a NaN timeout makes the loop test
  false at once.
\<close>

definition pollOrderStatus :: "poll_env \<Rightarrow> int option \<Rightarrow> event list \<times> (error + poll_status)" where
  "pollOrderStatus env timeoutMs =
     (case timeoutMs of None \<Rightarrow> ([], Inr Timeout) | Some t \<Rightarrow> pollLoop env t 0 0)"

definition status_queries :: "event list \<Rightarrow> nat" where
  "status_queries es = length (filter (\<lambda>e. e = StatusQuery) es)"

subsection \<open>The run\<close>

text \<open>
  \<^verbatim>\<open>resolveToken\<close> is imported from \<^verbatim>\<open>./tokens.js\<close>, which is not among the sources: what it
  returns for a reference is taken as it comes (\<open>co_resolve\<close>). \<open>co_quoteService\<close> is the
  answer to \<^verbatim>\<open>POST /api/v1/quote\<close>: \<open>None\<close> when the request rejects, otherwise
  \<^verbatim>\<open>response.ok\<close> and the \<^verbatim>\<open>quote\<close> object of the body (\<open>None\<close> when the body has none).
  \<open>co_wrapEncodes\<close> and \<open>co_presignEncodes\<close> say whether \<^verbatim>\<open>encodeFunctionData\<close> accepts the
  argument of \<^verbatim>\<open>wrapETH\<close> and the arguments of \<^verbatim>\<open>cowPreSign\<close> (it throws on a value that does
  not fit its type: an amount outside \<^verbatim>\<open>uint256\<close>, an address, an \<^verbatim>\<open>appData\<close> or an order
  uid that is no hex data of the right length).
  \<open>co_transactions i\<close> is the fate of the \<open>i\<close>-th on-chain operation.
\<close>

record cow_world =
  co_config :: "config option"
  co_resolve :: "string \<Rightarrow> error + token"
  co_chain :: chain
  co_quoteService :: "(bool \<times> cow_quote option) option"
  co_agentKey :: "bool option"
  co_now :: nat
  co_appDataHash :: "int \<Rightarrow> string"
  co_orderService :: "(bool \<times> string) option"
  co_wrapEncodes :: "int \<Rightarrow> bool"
  co_presignEncodes :: "order_struct \<Rightarrow> string \<Rightarrow> bool"
  co_transactions :: "nat \<Rightarrow> tx_result"
  co_poll :: poll_env
  co_finalBalance :: "int option"

record cow_context =
  cc_config :: config
  cc_tokenIn :: token
  cc_tokenOut :: token
  cc_amountIn :: int
  cc_wrapAmount :: int
  cc_quote :: cow_quote
  cc_sellAmount :: int
  cc_buyAmount :: int
  cc_feeAmount :: int

definition WETH_ADDRESS :: string where
  "WETH_ADDRESS = ''0x4200000000000000000000000000000000000006''"

definition NATIVE_ETH :: string where
  "NATIVE_ETH = ''0x0000000000000000000000000000000000000000''"

text \<open>
  \<^verbatim>\<open>
  if (tokenIn.address.toLowerCase() === NATIVE_ETH) {
      tokenIn = { ...tokenIn, address: WETH_ADDRESS, symbol: 'WETH' }
      ethSubstituted = true
  }
  \<close>
  and the same for \<^verbatim>\<open>tokenOut\<close>, setting the same flag.
\<close>

definition substitute_eth :: "token \<Rightarrow> token \<times> bool" where
  "substitute_eth t =
     (if toLowerCase (address t) = NATIVE_ETH
      then (t\<lparr> address := WETH_ADDRESS, symbol := ''WETH'' \<rparr>, True)
      else (t, False))"

text \<open>
  \<^verbatim>\<open>
  let wrapAmount = 0n
  if (ethSubstituted && tokenIn.address.toLowerCase() === WETH_ADDRESS.toLowerCase()) {
      const wethBalance = await wethContract.balanceOf(safeAddress)
      const ethBalance = await provider.getBalance(safeAddress)
      if (wethBalance >= amountIn) {
          balance = wethBalance
      } else if (wethBalance + ethBalance >= amountIn) {
          wrapAmount = amountIn - wethBalance
          balance = amountIn // sufficient after wrapping
      } else {
          console.error(`\nInsufficient ETH + WETH balance in Safe`)
          process.exit(1)
      }
  } else {
      balance = await tokenContract.balanceOf(safeAddress)
      if (balance < amountIn) {
          console.error(`\nInsufficient ${tokenIn.symbol} balance in Safe`)
          process.exit(1)
      }
  }
  \<close>
  The result is \<^verbatim>\<open>wrapAmount\<close>.
\<close>

definition checked_balance_cow :: "chain \<Rightarrow> bool \<Rightarrow> token \<Rightarrow> int \<Rightarrow> int run" where
  "checked_balance_cow c ethSubstituted tokenIn amountIn =
     (if ethSubstituted \<and> toLowerCase (address tokenIn) = toLowerCase WETH_ADDRESS then
        andThen (step [BalanceRead WETH_ADDRESS] (require (balanceOf c WETH_ADDRESS) CallFailed))
          (\<lambda>wethBalance.
        andThen (step [BalanceRead ''native''] (require (nativeBalance c) CallFailed))
          (\<lambda>ethBalance.
           if wethBalance \<ge> amountIn then step [] (Inr 0)
           else if wethBalance + ethBalance \<ge> amountIn then step [] (Inr (amountIn - wethBalance))
           else step [] (Inl InsufficientBalance)))
      else
        andThen (step [BalanceRead (address tokenIn)]
                   (require (balanceOf c (address tokenIn)) CallFailed))
          (\<lambda>balance. step [] (if balance < amountIn then Inl InsufficientBalance else Inr 0)))"

definition getCowQuote :: "(bool \<times> cow_quote option) option \<Rightarrow> error + cow_quote option" where
  "getCowQuote r =
     (case r of
        None \<Rightarrow> Inl CallFailed
      | Some (ok, qo) \<Rightarrow> if ok then Inr qo else Inl QuoteFailed)"

text \<open>
  \<^verbatim>\<open>main\<close> up to and including the summary. The summary computes the smart slippage once
  more, and \<^verbatim>\<open>Number(displayBuySlippage * 10000n / buyAmount)\<close> with it.
\<close>

definition quote_phase_cow :: "cow_world \<Rightarrow> args \<Rightarrow> cow_context run" where
  "quote_phase_cow w a =
     andThen (step [] (required_args a)) (\<lambda>(f, t, m).
     andThen (step [] (require (co_config w) ConfigNotFound)) (\<lambda>cfg.
     andThen (step [TokenLookup f] (co_resolve w f)) (\<lambda>resolvedIn.
     andThen (step [TokenLookup t] (co_resolve w t)) (\<lambda>resolvedOut.
     let (tokenIn, substitutedIn) = substitute_eth resolvedIn;
         (tokenOut, substitutedOut) = substitute_eth resolvedOut;
         ethSubstituted = (substitutedIn \<or> substitutedOut)
     in
     andThen (step [] (require (parseUnits (co_chain w) m (decimals tokenIn)) InvalidAmount)) (\<lambda>amountIn.
     andThen (checked_balance_cow (co_chain w) ethSubstituted tokenIn amountIn) (\<lambda>wrapAmount.
     andThen (step [QuoteRequest] (getCowQuote (co_quoteService w))) (\<lambda>qo.
     andThen (step [] (require qo MalformedResponse)) (\<lambda>q.
     andThen (step [] (require (cq_sellAmount q) NotABigInt)) (\<lambda>sellAmount.
     andThen (step [] (require (cq_buyAmount q) NotABigInt)) (\<lambda>buyAmount.
     andThen (step [] (require (cq_feeAmount q) NotABigInt)) (\<lambda>feeAmount.
     andThen (step [] (buySlippage feeAmount sellAmount buyAmount)) (\<lambda>displayBuySlippage.
     andThen (step [] (bigint_div (displayBuySlippage * 10000) buyAmount)) (\<lambda>slippagePct.
     step [SummaryPrinted]
       (Inr \<lparr> cc_config = cfg, cc_tokenIn = tokenIn, cc_tokenOut = tokenOut,
              cc_amountIn = amountIn, cc_wrapAmount = wrapAmount, cc_quote = q,
              cc_sellAmount = sellAmount, cc_buyAmount = buyAmount,
              cc_feeAmount = feeAmount \<rparr>))))))))))))))"

text \<open>
  The on-chain operations are sent one after the other, each awaited:
  \<^verbatim>\<open>
  for (let i = 0; i < multiSendTxs.length; i++) {
      const onChainTx = await roles.execTransactionWithRole(tx.to, tx.value, tx.data, 1, config.roleKey, true)
      const receipt = await onChainTx.wait()
      if (receipt.status !== 1) { console.error(`   Operation ${i + 1} failed!`); process.exit(1) }
  }
  \<close>
\<close>

fun run_operations :: "(nat \<Rightarrow> tx_result) \<Rightarrow> nat \<Rightarrow> event list \<Rightarrow> unit run" where
  "run_operations fate i [] = step [] (Inr ())"
| "run_operations fate i (op # ops) =
     andThen (step [op] (succeeded (fate i))) (\<lambda>u. run_operations fate (Suc i) ops)"

definition await_fill :: "poll_env \<Rightarrow> int option \<Rightarrow> unit run" where
  "await_fill env timeoutSeconds =
     (case pollOrderStatus env (map_option (\<lambda>t. t * 1000) timeoutSeconds) of
        (es, Inl e) \<Rightarrow> (es, Inl e)
      | (es, Inr Fulfilled) \<Rightarrow> (es, Inr ())
      | (es, Inr Expired) \<Rightarrow> (es, Inl OrderExpired)
      | (es, Inr Cancelled) \<Rightarrow> (es, Inl OrderCancelled)
      | (es, Inr Timeout) \<Rightarrow> (es, Inl OrderTimedOut))"

definition helpers_address :: "config \<Rightarrow> error + string" where
  "helpers_address cfg =
     (case zodiacHelpers cfg of
        None \<Rightarrow> Inl HelpersNotConfigured
      | Some h \<Rightarrow> if h = [] then Inl HelpersNotConfigured else Inr h)"

text \<open>
  \<^verbatim>\<open>main\<close> after \<^verbatim>\<open>--execute\<close>: the agent's wallet, the helper's address, the order
  submitted off chain, the operations built (the wrap when \<^verbatim>\<open>wrapAmount > 0n\<close>, then the
  presignature of \<open>orderStruct_of\<close>, each encoded when it is built), the operations sent,
  the polling, the new balance.
\<close>

definition execute_phase_cow :: "cow_world \<Rightarrow> args \<Rightarrow> cow_context \<Rightarrow> unit run" where
  "execute_phase_cow w a ctx =
     (let safeAddress = safe (cc_config ctx) in
     andThen (step [] (agent_wallet (co_agentKey w))) (\<lambda>u.
     andThen (step [] (helpers_address (cc_config ctx))) (\<lambda>zodiacHelpersAddress.
     andThen (submitCowOrder (co_now w) (co_appDataHash w) (co_orderService w)
                (Some (cc_quote ctx)) safeAddress (arg_timeout a)) (\<lambda>(orderUid, ord).
     andThen (step [] (if cc_wrapAmount ctx > 0
                       then check (co_wrapEncodes w (cc_wrapAmount ctx)) CallFailed
                       else Inr ())) (\<lambda>u.
     andThen (step [] (orderStruct_of ord safeAddress)) (\<lambda>orderStruct.
     andThen (step [] (check (co_presignEncodes w orderStruct orderUid) CallFailed)) (\<lambda>u.
     andThen (run_operations (co_transactions w) 0
                ((if cc_wrapAmount ctx > 0 then [Wrap (cc_wrapAmount ctx)] else []) @
                 [Presignature orderStruct orderUid])) (\<lambda>u.
     andThen (await_fill (co_poll w) (arg_timeout a)) (\<lambda>u.
     step [BalanceRead (address (cc_tokenOut ctx))]
       (case co_finalBalance w of None \<Rightarrow> Inl CallFailed | Some b \<Rightarrow> Inr ()))))))))))"

definition main_cow :: "cow_world \<Rightarrow> args \<Rightarrow> event list \<times> outcome" where
  "main_cow w a = finish (arg_execute a) (quote_phase_cow w a) (execute_phase_cow w a)"

section \<open>Concrete inputs\<close>

text \<open>
  A chain on which the contract at \<^verbatim>\<open>0x1111111111111111111111111111111111111111\<close> (an address
  without letters, which is its own checksummed form, and which is not in the registry)
  reports the symbol \<^verbatim>\<open>cbBTC\<close> with 8 decimals.
\<close>

definition impostor :: string where
  "impostor = ''0x1111111111111111111111111111111111111111''"

definition impostor_chain :: chain where
  "impostor_chain =
     \<lparr> getAddress = (\<lambda>a. if a = impostor then Some a else None),
       metadata = (\<lambda>a. if a = impostor then Some (''cbBTC'', 8) else None),
       parseUnits = (\<lambda>m d. None),
       nativeBalance = None,
       balanceOf = (\<lambda>t. None),
       allowance = (\<lambda>t. None) \<rparr>"

text \<open>
  A poll environment in which every request takes 100 ms, every timer fires 1 ms late, and
  the order is open at the first two queries and fulfilled from the third on.
\<close>

definition fills_at_third_query :: poll_env where
  "fills_at_third_query =
     \<lparr> fetchLatency = (\<lambda>i. 100),
       pollResponse = (\<lambda>i. if i < 2 then HttpOk ''open'' else HttpOk ''fulfilled''),
       timerOvershoot = (\<lambda>i. 1) \<rparr>"

text \<open>
  A Safe that holds 500 USDC, 1 WETH and 2 ETH and has granted no allowance, the quote
  services' answers, and runs that sell USDC through the two Aerodrome scripts and ETH
  through the CoW script. \<^verbatim>\<open>parseUnits\<close> is given at the amounts used; token resolution of
  the clawlett scripts answers for \<^verbatim>\<open>ETH\<close> (the native sentinel) and \<^verbatim>\<open>USDC\<close>.
\<close>

definition USDC :: string where
  "USDC = ''0x833589fCD6eDb6E08f4c7C32D4f71b54bdA02913''"

definition demo_config :: config where
  "demo_config =
     \<lparr> safe = ''0x2222222222222222222222222222222222222222'',
       roles = ''0x3333333333333333333333333333333333333333'',
       roleKey = ''0x0100000000000000000000000000000000000000000000000000000000000000'',
       zodiacHelpers = Some ZodiacHelpers \<rparr>"

definition demo_chain :: chain where
  "demo_chain =
     \<lparr> getAddress = (\<lambda>a. None),
       metadata = (\<lambda>a. if a = USDC then Some (''USDC'', 6)
                        else if a = WETH then Some (''WETH'', 18) else None),
       parseUnits = (\<lambda>m d. if m = ''100'' \<and> d = 6 then Some 100000000
                            else if m = ''900'' \<and> d = 6 then Some 900000000
                            else if m = ''3'' \<and> d = 18 then Some 3000000000000000000
                            else if m = ''5'' \<and> d = 18 then Some 5000000000000000000
                            else None),
       nativeBalance = Some 2000000000000000000,
       balanceOf = (\<lambda>t. if t = USDC then Some 500000000
                         else if t = WETH then Some 1000000000000000000 else None),
       allowance = (\<lambda>t. Some 0) \<rparr>"

definition demo_quote_response :: quote_response where
  "demo_quote_response =
     \<lparr> resp_ok = True, resp_error = None, resp_quote = Some 30000000000000000,
       resp_minAmountOut = None, resp_calldata = Some ''0x3593564c00'', resp_value = None,
       resp_isMultiHop = False \<rparr>"

definition sell_usdc :: "string \<Rightarrow> bool \<Rightarrow> number \<Rightarrow> string \<Rightarrow> args" where
  "sell_usdc amount execute slippage mode =
     \<lparr> arg_from = Some ''USDC'', arg_to = Some ''ETH'', arg_amount = Some amount,
       arg_slippage = slippage, arg_execute = execute, arg_approveMode = mode,
       arg_revokeAfter = False, arg_simulate = True, arg_timeout = Some 1800 \<rparr>"

definition sell_eth :: "string \<Rightarrow> bool \<Rightarrow> args" where
  "sell_eth amount execute =
     \<lparr> arg_from = Some ''ETH'', arg_to = Some ''USDC'', arg_amount = Some amount,
       arg_slippage = Finite (1 / 20), arg_execute = execute, arg_approveMode = ''exact'',
       arg_revokeAfter = False, arg_simulate = True, arg_timeout = Some 1800 \<rparr>"

definition claw_wallet_demo :: claw_wallet_world where
  "claw_wallet_demo =
     \<lparr> cw_config = Some demo_config, cw_chain = demo_chain,
       cw_quoteService = Some demo_quote_response, cw_agentKey = Some True,
       cw_swapEncodes = True, cw_approveTx = TxMined 1, cw_swapTx = TxMined 1,
       cw_finalBalance = Some 1 \<rparr>"

definition demo_resolve :: "string \<Rightarrow> error + token" where
  "demo_resolve r =
     (if r = ''ETH'' then
        Inr \<lparr> address = NATIVE_ETH, symbol = ''ETH'', decimals = 18, verified = True,
              native = True, warning = None \<rparr>
      else if r = ''USDC'' then
        Inr \<lparr> address = USDC, symbol = ''USDC'', decimals = 6, verified = True,
              native = False, warning = None \<rparr>
      else Inl (TokenNotFound r))"

definition aerodrome_demo :: aerodrome_world where
  "aerodrome_demo =
     \<lparr> ae_config = Some demo_config, ae_chainId = Some 8453,
       ae_hasCode = (\<lambda>a. Some True), ae_resolve = demo_resolve, ae_chain = demo_chain,
       ae_quoteService = Some demo_quote_response, ae_recipientRejected = False,
       ae_agentKey = Some True, ae_approveTx = TxMined 1, ae_simulation = True,
       ae_swapTx = TxMined 1, ae_revokeTx = TxMined 1, ae_finalBalance = Some 1 \<rparr>"

text \<open>
  The hash of the application data (32 bytes) and the order uid that the order service
  answers with (56 bytes: a digest, the owner, and \<open>validTo\<close>).
\<close>

definition demo_appData :: string where
  "demo_appData = ''0xa99da7a0a99da7a0a99da7a0a99da7a0a99da7a0a99da7a0a99da7a0a99da7a0''"

definition demo_orderUid :: string where
  "demo_orderUid =
     ''0x1111111111111111111111111111111111111111111111111111111111111111222222222222222222222222222222222222222200000744''"

text \<open>
  An encoder that accepts the arguments of \<^verbatim>\<open>cowPreSign\<close> when the uid is hex data, the
  application data are 32 bytes of hex data, and the amounts and \<open>validTo\<close> fit their types.
\<close>

definition hex_data :: "string \<Rightarrow> bool" where
  "hex_data h =
     (take 2 h = ''0x'' \<and> even (length h) \<and>
      list_all (\<lambda>c. c \<in> set ''0123456789abcdefABCDEF'') (drop 2 h))"

definition demo_presignEncodes :: "order_struct \<Rightarrow> string \<Rightarrow> bool" where
  "demo_presignEncodes st uid =
     (hex_data uid \<and> hex_data (s_appData st) \<and> length (s_appData st) = 66 \<and>
      0 \<le> s_sellAmount st \<and> s_sellAmount st < 2 ^ 256 \<and>
      0 \<le> s_buyAmount st \<and> s_buyAmount st < 2 ^ 256 \<and>
      0 \<le> s_validTo st \<and> s_validTo st < 2 ^ 32)"

definition demo_cow_quote :: cow_quote where
  "demo_cow_quote =
     \<lparr> cq_sellToken = WETH_ADDRESS, cq_buyToken = USDC, cq_receiver = None,
       cq_sellAmount = Some 2999000000000000000, cq_buyAmount = Some 10000000000,
       cq_feeAmount = Some 1000000000000000, cq_kind = ''sell'',
       cq_partiallyFillable = False, cq_sellTokenBalance = None,
       cq_buyTokenBalance = None \<rparr>"

definition cow_demo :: cow_world where
  "cow_demo =
     \<lparr> co_config = Some demo_config, co_resolve = demo_resolve, co_chain = demo_chain,
       co_quoteService = Some (True, Some demo_cow_quote), co_agentKey = Some True,
       co_now = 60000, co_appDataHash = (\<lambda>bips. demo_appData),
       co_orderService = Some (True, demo_orderUid),
       co_wrapEncodes = (\<lambda>amount. 0 \<le> amount \<and> amount < 2 ^ 256),
       co_presignEncodes = demo_presignEncodes,
       co_transactions = (\<lambda>i. TxMined 1),
       co_poll = fills_at_third_query, co_finalBalance = Some 1 \<rparr>"

definition demo_order :: order where
  "demo_order =
     \<lparr> o_sellToken = WETH_ADDRESS, o_buyToken = USDC, o_receiver = safe demo_config,
       o_sellAmount = Some 2999000000000000000, o_buyAmount = Some 9944998333,
       o_validTo = 1860, o_appData = demo_appData, o_feeAmount = Some 0, o_kind = ''sell'',
       o_partiallyFillable = False, o_sellTokenBalance = ''erc20'',
       o_buyTokenBalance = ''erc20'', o_signingScheme = ''presign'',
       o_signature = safe demo_config, o_from = safe demo_config \<rparr>"

definition demo_order_struct :: order_struct where
  "demo_order_struct =
     \<lparr> s_sellToken = WETH_ADDRESS, s_buyToken = USDC, s_receiver = safe demo_config,
       s_sellAmount = 2999000000000000000, s_buyAmount = 9944998333, s_validTo = 1860,
       s_appData = demo_appData, s_feeAmount = 0, s_kind = KIND_SELL,
       s_partiallyFillable = False, s_sellTokenBalance = BALANCE_ERC20,
       s_buyTokenBalance = BALANCE_ERC20 \<rparr>"

text \<open>What the quote phase of the clawlett Aerodrome script establishes in that run.\<close>

definition demo_context :: swap_context where
  "demo_context =
     \<lparr> ctx_config = demo_config,
       ctx_tokenIn = \<lparr> address = USDC, symbol = ''USDC'', decimals = 6, verified = True,
                      native = False, warning = None \<rparr>,
       ctx_tokenOut = \<lparr> address = NATIVE_ETH, symbol = ''ETH'', decimals = 18,
                       verified = True, native = True, warning = None \<rparr>,
       ctx_amountIn = 100000000,
       ctx_quote = \<lparr> q_amountOut = 30000000000000000, q_minAmountOut = None,
                     q_calldata = Some ''0x3593564c00'', q_value = None,
                     q_isMultiHop = False \<rparr>,
       ctx_minAmountOut = 29700000000000000 \<rparr>"

section \<open>Properties of runs\<close>

text \<open>
  A run ends with the summary when, if it succeeded, the summary is the last thing it did,
  and, if it failed, it never printed the summary.
\<close>

definition ends_with_summary :: "'a run \<Rightarrow> bool" where
  "ends_with_summary r =
     (case snd r of
        Inl e \<Rightarrow> SummaryPrinted \<notin> set (fst r)
      | Inr x \<Rightarrow> fst r \<noteq> [] \<and> last (fst r) = SummaryPrinted)"

text \<open>An event carries a zero fee when it is no order, or an order whose fee is zero.\<close>

definition zero_fee :: "event \<Rightarrow> bool" where
  "zero_fee e =
     ((\<forall>ord. e = OrderSubmission ord \<longrightarrow> o_feeAmount ord = Some 0) \<and>
      (\<forall>st uid. e = Presignature st uid \<longrightarrow> s_feeAmount st = 0))"

section \<open>Theorems\<close>

subsection \<open>Truncated division\<close>


lemma tdiv_neg_left: "a \<le> 0 \<Longrightarrow> 0 < b \<Longrightarrow> tdiv a b = - ((- a) div b)"
  by (cases "a = 0") (simp_all add: tdiv_def)

lemma bigint_div_nonzero: "b \<noteq> 0 \<Longrightarrow> bigint_div a b = Inr (tdiv a b)"
  by (simp add: bigint_div_def)

subsection \<open>Smart slippage\<close>

text \<open>
  C8. For exact integers \<open>f\<close> (fee amount), \<open>s\<close> (sell amount) and \<open>b\<close> (buy amount), the
  discount computed by \<open>buySlippage\<close> is \<open>(f*3/2 + s*5/1000) * b / s\<close> with every
  quotient truncated when \<open>s > 0\<close>, it is the flat term \<open>b*5/1000\<close> when \<open>s = 0\<close>, and
  the computation never raises the division-by-zero error, whatever \<open>s\<close> is.
\<close>

theorem buySlippage_smart_discount:
  "(0 < s \<longrightarrow> buySlippage f s b = Inr (smart_discount_spec f s b)) \<and>
   (s = 0 \<longrightarrow> buySlippage f s b = Inr (flat_discount_spec b)) \<and>
   buySlippage f s b \<noteq> Inl DivisionByZero"
  by (simp add: buySlippage_def bigint_div_def smart_discount_spec_def flat_discount_spec_def
      Let_def)

theorem buySlippage_smart_discount_witness:
  "(0 < (1000::int) \<and> buySlippage 10 1000 2000 = Inr 40) \<and>
   buySlippage 10 0 2000 = Inr 10"
proof -
  have "smart_discount_spec 10 1000 2000 = 40"
    by (simp add: smart_discount_spec_def tdiv_def)
  moreover have "flat_discount_spec 2000 = 10"
    by (simp add: flat_discount_spec_def tdiv_def)
  ultimately show ?thesis
    using buySlippage_smart_discount [of 1000 10 2000] buySlippage_smart_discount [of 0 10 2000]
    by simp
qed

subsection \<open>Double arithmetic\<close>

text \<open>
  Rounding to a double leaves an integer below \<open>2 ^ 53\<close> as it is, and keeps a
  non-negative number below such an integer that bounds it.
\<close>

lemma pow2_pos: "0 < pow2 k"
  by (simp add: pow2_def)

lemma pow2_powi: "pow2 k = 2 powi k"
  by (simp add: pow2_def power_int_def power_inverse [symmetric] inverse_eq_divide field_simps)

lemma pow2_mono: "i \<le> j \<Longrightarrow> pow2 i \<le> pow2 j"
  unfolding pow2_powi by (rule power_int_increasing) simp_all

lemma pow2_nonpos: "e \<le> 0 \<Longrightarrow> pow2 e = 1 / 2 ^ nat (- e)"
  by (cases "e = 0") (simp_all add: pow2_def)

lemma floor_log2_le:
  assumes "0 < a"
  shows "pow2 (floor_log2 a) \<le> a"
proof -
  obtain p d where pd: "quotient_of a = (p, d)" by (cases "quotient_of a")
  then have d: "0 < d" and a: "a = of_int p / of_int d"
    using quotient_of_denom_pos quotient_of_div by blast+
  from assms a d have p: "0 < p" by (simp add: zero_less_divide_iff)
  let ?k = "bitlen p - bitlen d"
  show ?thesis
  proof (cases "pow2 ?k \<le> a")
    case True
    then show ?thesis by (simp add: floor_log2_def pd)
  next
    case False
    have bp: "2 ^ nat (bitlen p - 1) \<le> p" and bd: "d < 2 ^ nat (bitlen d)"
      using bitlen_bounds [OF p] bitlen_bounds [OF d] by simp_all
    have p1: "1 \<le> bitlen p" using p by (simp add: bitlen_alt_def)
    have "?k - 1 = (bitlen p - 1) - bitlen d" by simp
    then have "pow2 (?k - 1) = 2 powi ((bitlen p - 1) - bitlen d)"
      by (simp only: pow2_powi)
    also have "\<dots> = 2 powi (bitlen p - 1) / 2 powi (bitlen d)"
      by (rule power_int_diff) simp
    also have "\<dots> = 2 ^ nat (bitlen p - 1) / 2 ^ nat (bitlen d)"
      using p1 bitlen_nonneg [of d] by (simp add: power_int_def)
    also have "\<dots> \<le> of_int p / of_int d"
    proof (rule frac_le)
      show "(0 :: rat) \<le> of_int p" using p by simp
      from bp have "(of_int (2 ^ nat (bitlen p - 1)) :: rat) \<le> of_int p"
        by (simp only: of_int_le_iff)
      then show "(2 :: rat) ^ nat (bitlen p - 1) \<le> of_int p" by simp
      show "(0 :: rat) < of_int d" using d by simp
      from bd have "(of_int d :: rat) \<le> of_int (2 ^ nat (bitlen d))"
        by (simp only: of_int_le_iff)
      then show "(of_int d :: rat) \<le> 2 ^ nat (bitlen d)" by simp
    qed
    finally have "pow2 (?k - 1) \<le> a" using a by simp
    with False show ?thesis by (simp add: floor_log2_def pd)
  qed
qed

lemma floor_log2_less:
  assumes "0 < a" and "a < pow2 k"
  shows "floor_log2 a < k"
proof (rule ccontr)
  assume "\<not> floor_log2 a < k"
  then have "pow2 k \<le> pow2 (floor_log2 a)" by (simp add: pow2_mono)
  with floor_log2_le [OF assms(1)] assms(2) show False by simp
qed

lemma round_half_even_of_int: "round_half_even (of_int n) = n"
  by (simp add: round_half_even_def)

lemma round_half_even_le: "q \<le> of_int N \<Longrightarrow> round_half_even q \<le> N"
  unfolding round_half_even_def Let_def
  by (auto simp: le_floor_iff floor_le_iff)

lemma round_half_even_nonneg: "0 \<le> q \<Longrightarrow> 0 \<le> round_half_even q"
  unfolding round_half_even_def Let_def by auto

lemma round53_bounds:
  assumes "0 \<le> x" and "x \<le> of_int M" and "M < 2 ^ 53"
  shows "0 \<le> round53 x \<and> round53 x \<le> of_int M"
proof (cases "x = 0")
  case True
  with assms show ?thesis by (simp add: round53_def)
next
  case False
  with assms have pos: "0 < x" by simp
  define e where "e = max (floor_log2 x - 52) (- 1074)"
  have "(of_int M :: rat) < of_int (2 ^ 53)" using assms(3) by (simp only: of_int_less_iff)
  then have "x < pow2 53" using assms(2) by (simp add: pow2_def)
  then have "floor_log2 x < 53" using pos by (rule floor_log2_less [rotated])
  then have e0: "e \<le> 0" by (simp add: e_def)
  define j where "j = nat (- e)"
  have pe: "pow2 e = 1 / 2 ^ j" using e0 by (simp add: pow2_nonpos j_def)
  have q: "x / pow2 e = x * 2 ^ j" by (simp add: pe)
  have "x * 2 ^ j \<le> of_int (M * 2 ^ j)" using assms(2) by simp
  then have up: "round_half_even (x * 2 ^ j) \<le> M * 2 ^ j" by (rule round_half_even_le)
  have lo: "0 \<le> round_half_even (x * 2 ^ j)" using pos by (simp add: round_half_even_nonneg)
  have r: "round53 x = of_int (round_half_even (x * 2 ^ j)) / 2 ^ j"
    using pos by (simp add: round53_def e_def [symmetric] q pe)
  from up have "(of_int (round_half_even (x * 2 ^ j)) :: rat) \<le> of_int (M * 2 ^ j)"
    by (simp only: of_int_le_iff)
  then have "(of_int (round_half_even (x * 2 ^ j)) :: rat) / 2 ^ j \<le> of_int M"
    by (simp add: field_simps)
  moreover from lo have "(0 :: rat) \<le> of_int (round_half_even (x * 2 ^ j)) / 2 ^ j" by simp
  ultimately show ?thesis by (simp add: r)
qed

lemma round53_of_nat_int:
  assumes "0 \<le> n" and "n < 2 ^ 53"
  shows "round53 (of_int n) = of_int n"
proof (cases "n = 0")
  case True
  then show ?thesis by (simp add: round53_def)
next
  case False
  with assms have pos: "(0 :: rat) < of_int n" by simp
  define e where "e = max (floor_log2 (of_int n) - 52) (- 1074)"
  have "(of_int n :: rat) < of_int (2 ^ 53)" using assms(2) by (simp only: of_int_less_iff)
  then have "(of_int n :: rat) < pow2 53" by (simp add: pow2_def)
  then have "floor_log2 (of_int n) < 53" using pos by (rule floor_log2_less [rotated])
  then have e0: "e \<le> 0" by (simp add: e_def)
  define j where "j = nat (- e)"
  have pe: "pow2 e = 1 / 2 ^ j" using e0 by (simp add: pow2_nonpos j_def)
  have "(of_int n :: rat) * 2 ^ j = of_int (n * 2 ^ j)" by simp
  then have rq: "round_half_even (of_int n * 2 ^ j) = n * 2 ^ j"
    by (simp only: round_half_even_of_int)
  show ?thesis
    using pos by (simp add: round53_def e_def [symmetric] pe rq)
qed

lemma round53_minus: "round53 (- x) = - round53 x"
  by (simp add: round53_def Let_def)

lemma round53_of_int:
  assumes "\<bar>n\<bar> < 2 ^ 53"
  shows "round53 (of_int n) = of_int n"
proof (cases "0 \<le> n")
  case True
  with assms show ?thesis by (simp add: round53_of_nat_int)
next
  case False
  with assms have "round53 (of_int (- n)) = of_int (- n)"
    by (intro round53_of_nat_int) simp_all
  then show ?thesis by (simp add: round53_minus)
qed

lemma to_double_of_int: "\<bar>n\<bar> < 2 ^ 53 \<Longrightarrow> to_double (of_int n) = Finite (of_int n)"
proof -
  assume n: "\<bar>n\<bar> < 2 ^ 53"
  then have "n < 2 ^ 1024" and "- (2 ^ 1024) < n" by simp_all
  then have "(of_int n :: rat) < of_int (2 ^ 1024)" and "(of_int (- (2 ^ 1024)) :: rat) < of_int n"
    by (simp_all only: of_int_less_iff)
  then show ?thesis
    using n by (simp add: to_double_def round53_of_int)
qed

lemma to_double_bounds:
  assumes "0 \<le> x" and "x \<le> of_int M" and "M < 2 ^ 53"
  shows "to_double x = Finite (round53 x)"
proof -
  from round53_bounds [OF assms] have b: "0 \<le> round53 x" "round53 x \<le> of_int M" by simp_all
  have "M < 2 ^ 1024" using assms(3) by simp
  then have "(of_int M :: rat) < of_int (2 ^ 1024)" by (simp only: of_int_less_iff)
  with b have "round53 x < 2 ^ 1024" by simp
  with b show ?thesis by (simp add: to_double_def)
qed

text \<open>
  The rounding at work. The double nearest to 0.01 is a little more than 0.01, and its
  product with 10000 rounds to the double 100. The double nearest to 0.00035 is a little
  less than 0.00035, and its product with 10000, which is less than 3.5, rounds to the
  double 3.5. The double nearest to \<open>10\<^sup>-\<^sup>1\<^sup>7\<close> is absorbed by 100.
\<close>

lemma round53_examples:
  "100 < 5764607523034235 / 576460752303423488 * (10000 :: rat)"
  "round53 (5764607523034235 / 576460752303423488 * 10000) = 100"
  "6456360425798343 / 18446744073709551616 * (10000 :: rat) < 7 / 2"
  "round53 (6456360425798343 / 18446744073709551616 * 10000) = 7 / 2"
  "round53 (100 - 6490371073168535 / 649037107316853453566312041152512) = 100"
  by code_simp+

lemma double_sub_integers:
  "\<bar>a - b\<bar> < 2 ^ 53 \<Longrightarrow>
     double_sub (Finite (of_int a)) (Finite (of_int b)) = Finite (of_int (a - b))"
  using to_double_of_int [of "a - b"] by (simp add: double_sub_def)



lemma parseSlippageBps_in_range:
  assumes "0 \<le> s" and "s \<le> 1 / 2"
  shows "parseSlippageBps (Finite s) = Inr (Finite (of_int (round (round53 (s * 10000)))))"
proof -
  from assms have "0 \<le> s * 10000" and "s * 10000 \<le> of_int 5000" by simp_all
  then have "to_double (s * 10000) = Finite (round53 (s * 10000))"
    by (rule to_double_bounds) simp
  with assms show ?thesis
    by (simp add: parseSlippageBps_def double_mul_def Math_round_def)
qed

lemma computedMinAmountOut_integer:
  assumes "\<bar>10000 - bps\<bar> < 2 ^ 53"
  shows "computedMinAmountOut out (Finite (of_int bps)) = Inr (tdiv (out * (10000 - bps)) 10000)"
proof -
  from double_sub_integers [of 10000 bps] assms
  have "double_sub (Finite 10000) (Finite (of_int bps)) = Finite (of_int (10000 - bps))"
    by simp
  then show ?thesis
    by (simp add: computedMinAmountOut_def BigInt_of_number_def bigint_div_def)
qed


text \<open>
  A percentage that the difference absorbs leaves the quoted amount as the minimum output.
\<close>

lemma minAmountOut_claw_wallet_absorbed:
  "minAmountOut_claw_wallet 1000
     (Finite (6490371073168535 / 649037107316853453566312041152512)) = Inr 1000"
proof -
  have "to_double (100 - 6490371073168535 / 649037107316853453566312041152512) = Finite 100"
    unfolding to_double_def by (simp only: round53_examples Let_def) simp
  then show ?thesis
    by (simp add: minAmountOut_claw_wallet_def double_sub_def BigInt_of_number_def
        bigint_div_def tdiv_def)
qed

text \<open>
  The slippages of the concrete runs: the percentage 1 in claw-wallet, and the fraction
  \<open>1 / 100\<close> in clawlett, which yields the 100 basis points that the double nearest to
  0.01 yields.
\<close>

lemma double_sub_one_percent: "double_sub (Finite 100) (Finite 1) = Finite 99"
  using double_sub_integers [of 100 1] by simp

lemma parseSlippageBps_one_percent: "parseSlippageBps (Finite (1 / 100)) = Inr (Finite 100)"
  using to_double_of_int [of 100] by (simp add: parseSlippageBps_def double_mul_def Math_round_def)

lemma parseSlippageBps_nearest_double:
  "parseSlippageBps (Finite (5764607523034235 / 576460752303423488)) = Inr (Finite 100)"
proof -
  have "round (round53 (5764607523034235 / 576460752303423488 * 10000)) = 100"
    by (simp only: round53_examples) simp
  with parseSlippageBps_in_range [of "5764607523034235 / 576460752303423488"]
  show ?thesis by simp
qed

lemma computedMinAmountOut_one_percent:
  "computedMinAmountOut out (Finite 100) = Inr (tdiv (out * 9900) 10000)"
  using computedMinAmountOut_integer [of 100 out] by simp

subsection \<open>Minimum output\<close>




subsection \<open>Quote validation\<close>

text \<open>
  C2, as the claim states it, fails for a payload whose call data is not hex data:
  \<^verbatim>\<open>requireHexData\<close> runs before the value is looked at, and the error is the one of the
  call data, although the quote of an ERC-20 swap carries the value 1.
\<close>

theorem validateQuotePayload_hex_check_first:
  "validateQuotePayload
     (Some \<lparr> q_amountOut = 1, q_minAmountOut = None, q_calldata = Some ''0x1'',
             q_value = Some 1, q_isMultiHop = False \<rparr>) 10 False False
   = Inl (InvalidHexData ''quote.calldata'')"
  by (simp add: validateQuotePayload_def requireHexData_def startsWith_def)

text \<open>
  C2, amended. Every quote with a non-zero value for a non-native input, and every quote
  for a native input whose value exceeds \<open>amountIn\<close>, is rejected; when the call data of
  the quote passes \<^verbatim>\<open>requireHexData\<close>, the error is the unsafe-quote error of the case,
  and otherwise it is the hex-data error, which is raised first. In every other
  configuration of the value no unsafe-quote error is thrown.
\<close>

theorem validateQuotePayload_value_guards:
  "((\<not> isETHIn \<and> ethValue_of q \<noteq> 0) \<or> (isETHIn \<and> ethValue_of q > amountIn) \<longrightarrow>
      (\<exists>e. validateQuotePayload (Some q) amountIn rejected isETHIn = Inl e)) \<and>
   (requireHexData (q_calldata q) ''quote.calldata'' = Inr () \<longrightarrow>
      (\<not> isETHIn \<and> ethValue_of q \<noteq> 0 \<longrightarrow>
         validateQuotePayload (Some q) amountIn rejected isETHIn =
           Inl (UnsafeQuoteErc20Value (ethValue_of q))) \<and>
      (isETHIn \<and> ethValue_of q > amountIn \<longrightarrow>
         validateQuotePayload (Some q) amountIn rejected isETHIn =
           Inl (UnsafeQuoteEthValue (ethValue_of q) amountIn))) \<and>
   (\<not> (\<not> isETHIn \<and> ethValue_of q \<noteq> 0) \<and> \<not> (isETHIn \<and> ethValue_of q > amountIn) \<longrightarrow>
      (\<forall>e. validateQuotePayload (Some q) amountIn rejected isETHIn = Inl e \<longrightarrow>
           \<not> unsafe_quote_error e)) \<and>
   (requireHexData (q_calldata q) ''quote.calldata'' \<noteq> Inr () \<longrightarrow>
      validateQuotePayload (Some q) amountIn rejected isETHIn =
        Inl (InvalidHexData ''quote.calldata''))"
  by (auto simp: validateQuotePayload_def requireHexData_def Let_def
      split: sum.splits option.splits if_splits)

theorem validateQuotePayload_value_guards_witness:
  "validateQuotePayload
     (Some \<lparr> q_amountOut = 1, q_minAmountOut = None, q_calldata = Some ''0x12'',
             q_value = Some 1, q_isMultiHop = False \<rparr>) 10 False False
     = Inl (UnsafeQuoteErc20Value 1) \<and>
   validateQuotePayload
     (Some \<lparr> q_amountOut = 1, q_minAmountOut = None, q_calldata = Some ''0x12'',
             q_value = Some 11, q_isMultiHop = False \<rparr>) 10 False True
     = Inl (UnsafeQuoteEthValue 11 10) \<and>
   validateQuotePayload
     (Some \<lparr> q_amountOut = 1, q_minAmountOut = None, q_calldata = Some ''12'',
             q_value = Some 11, q_isMultiHop = False \<rparr>) 10 False True
     = Inl (InvalidHexData ''quote.calldata'')"
proof -
  let ?q = "\<lambda>v. \<lparr> q_amountOut = 1, q_minAmountOut = None, q_calldata = Some ''0x12'',
                   q_value = Some v, q_isMultiHop = False \<rparr>"
  have hex: "requireHexData (q_calldata (?q v)) ''quote.calldata'' = Inr ()" for v :: int
    by (simp add: requireHexData_def startsWith_def)
  have v: "ethValue_of (?q v) = v" for v
    by (simp add: ethValue_of_def)
  let ?r = "\<lparr> q_amountOut = 1, q_minAmountOut = None, q_calldata = Some ''12'',
              q_value = Some 11, q_isMultiHop = False \<rparr>"
  have nohex: "requireHexData (q_calldata ?r) ''quote.calldata'' \<noteq> Inr ()"
    by (simp add: requireHexData_def startsWith_def)
  have "validateQuotePayload (Some ?r) 10 False True = Inl (InvalidHexData ''quote.calldata'')"
    using validateQuotePayload_value_guards [of True ?r 10 False] nohex by blast
  then show ?thesis
    using validateQuotePayload_value_guards [of False "?q 1" 10 False]
      validateQuotePayload_value_guards [of True "?q 11" 10 False]
      hex [of 1] hex [of 11] v [of 1] v [of 11]
    by simp
qed

subsection \<open>Token resolution\<close>

lemma toUpperCase_cbBTC: "toUpperCase ''cbBTC'' = ''CBBTC''"
  by code_simp

lemma trim_cbBTC: "trim ''cbBTC'' = ''cbBTC''"
  by code_simp

text \<open>
  C3 fails in the code for the protected symbol \<^verbatim>\<open>cbBTC\<close>: the reference is brought to
  upper case before the lookup, the registry and the protected list hold the key in mixed
  case, and resolution ends with the error for an unknown token, whatever the chain
  answers.
\<close>

theorem resolveToken_cbBTC_not_found:
  "resolveToken c ''cbBTC'' = Inl (TokenNotFound ''CBBTC'')"
  by (simp add: resolveToken_def toUpperCase_cbBTC trim_cbBTC startsWith_def stripSigil_def
      TOKEN_ALIASES_def VERIFIED_TOKENS_def PROTECTED_SYMBOLS_def)

text \<open>
  C4 fails in the code for the same reason: a contract outside the registry that reports
  the symbol \<^verbatim>\<open>cbBTC\<close> is resolved without a warning.
\<close>

theorem resolveByAddress_cbBTC_impostor_unwarned:
  "resolveByAddress impostor_chain impostor =
     Inr \<lparr> address = impostor, symbol = ''cbBTC'', decimals = 8, verified = False,
           native = False, warning = None \<rparr>"
  by code_simp

text \<open>
  For the record: the seven protected symbols that the registry holds in upper case do
  resolve to their registry address, every registry address resolves as verified (also
  the one of \<^verbatim>\<open>cbBTC\<close>), and an address outside the registry whose symbol is one of those
  seven in any case is returned unverified with a warning.
\<close>

lemma upper_case_symbols:
  "s \<in> {''ETH'', ''WETH'', ''USDC'', ''USDT'', ''DAI'', ''USDS'', ''AERO''} \<Longrightarrow>
     trim s = s \<and> toUpperCase s = s \<and> stripSigil s = s \<and> \<not> startsWith s ''0x'' \<and>
     map_of TOKEN_ALIASES s = None"
  by (elim insertE emptyE; hypsubst; code_simp)

lemma resolveToken_upper_case_protected:
  assumes "s \<in> {''ETH'', ''WETH'', ''USDC'', ''USDT'', ''DAI'', ''USDS'', ''AERO''}"
    and "map_of VERIFIED_TOKENS s = Some a"
    and "metadata c a = Some (onChainSymbol, d)"
  shows "resolveToken c s =
           Inr \<lparr> address = a, symbol = onChainSymbol, decimals = d, verified = True,
                 native = False, warning = None \<rparr>"
  using upper_case_symbols [OF assms(1)] assms(2,3)
  by (simp add: resolveToken_def Let_def)

lemma resolveByAddress_registry_verified:
  assumes "(k, a) \<in> set VERIFIED_TOKENS"
    and "getAddress c input = Some a'"
    and "toLowerCase a' = toLowerCase a"
    and "metadata c a' = Some (onChainSymbol, d)"
  shows "\<exists>t. resolveByAddress c input = Inr t \<and> verified t \<and> warning t = None"
proof -
  have "find (\<lambda>(k, r). toLowerCase r = toLowerCase a') VERIFIED_TOKENS \<noteq> None"
    using assms(1,3) by (auto simp: find_None_iff)
  then show ?thesis
    using assms(2,4) by (simp add: resolveByAddress_def Let_def)
qed

lemma resolveByAddress_upper_case_protected_warned:
  assumes "getAddress c input = Some a'"
    and "\<forall>(k, r)\<in>set VERIFIED_TOKENS. toLowerCase r \<noteq> toLowerCase a'"
    and "metadata c a' = Some (onChainSymbol, d)"
    and "toUpperCase onChainSymbol \<in> set PROTECTED_SYMBOLS"
  shows "\<exists>t msg. resolveByAddress c input = Inr t \<and> \<not> verified t \<and>
           warning t = Some msg \<and> msg \<noteq> []"
proof -
  have "find (\<lambda>(k, r). toLowerCase r = toLowerCase a') VERIFIED_TOKENS = None"
    using assms(2) by (auto simp: find_None_iff)
  then show ?thesis
    using assms(1,3,4) by (simp add: resolveByAddress_def Let_def warning_text_def)
qed

subsection \<open>Polling\<close>

text \<open>
  C9. When the first two status queries answer \<^verbatim>\<open>open\<close> and the third answers
  \<^verbatim>\<open>fulfilled\<close>, and the third query starts within the timeout, the loop ends with the
  state fulfilled after exactly three status queries, with one wait of the fixed interval
  of 5000 ms between two queries.
\<close>

theorem pollOrderStatus_fulfilled_at_third_query:
  assumes "pollResponse env 0 = HttpOk ''open''"
    and "pollResponse env 1 = HttpOk ''open''"
    and "pollResponse env 2 = HttpOk ''fulfilled''"
    and "int (fetchLatency env 0 + pollInterval + timerOvershoot env 0 +
              fetchLatency env 1 + pollInterval + timerOvershoot env 1) < timeoutMs"
  shows "pollOrderStatus env (Some timeoutMs) =
           ([StatusQuery, Wait 5000, StatusQuery, Wait 5000, StatusQuery], Inr Fulfilled) \<and>
         status_queries (fst (pollOrderStatus env (Some timeoutMs))) = 3"
proof -
  let ?t1 = "fetchLatency env 0 + pollInterval + timerOvershoot env 0"
  let ?t2 = "?t1 + fetchLatency env 1 + pollInterval + timerOvershoot env 1"
  have third: "pollLoop env timeoutMs ?t2 2 = ([StatusQuery], Inr Fulfilled)"
    using assms by (subst pollLoop.simps) (simp add: terminal_status_def)
  have second: "pollLoop env timeoutMs ?t1 1 =
      ([StatusQuery, Wait pollInterval, StatusQuery], Inr Fulfilled)"
    using assms third by (subst pollLoop.simps) (simp add: terminal_status_def numeral_2_eq_2)
  have first: "pollLoop env timeoutMs 0 0 =
      ([StatusQuery, Wait pollInterval, StatusQuery, Wait pollInterval, StatusQuery],
       Inr Fulfilled)"
    using assms second by (subst pollLoop.simps) (simp add: terminal_status_def)
  then show ?thesis
    by (simp add: pollOrderStatus_def pollInterval_def status_queries_def)
qed

theorem pollOrderStatus_fulfilled_at_third_query_witness:
  "pollOrderStatus fills_at_third_query (Some 1800000) =
     ([StatusQuery, Wait 5000, StatusQuery, Wait 5000, StatusQuery], Inr Fulfilled) \<and>
   status_queries (fst (pollOrderStatus fills_at_third_query (Some 1800000))) = 3"
proof -
  have "pollResponse fills_at_third_query 0 = HttpOk ''open''"
    and "pollResponse fills_at_third_query 1 = HttpOk ''open''"
    and "pollResponse fills_at_third_query 2 = HttpOk ''fulfilled''"
    and "int (fetchLatency fills_at_third_query 0 + pollInterval +
              timerOvershoot fills_at_third_query 0 +
              fetchLatency fills_at_third_query 1 + pollInterval +
              timerOvershoot fills_at_third_query 1) < 1800000"
    by (simp_all add: fills_at_third_query_def pollInterval_def)
  then show ?thesis
    by (rule pollOrderStatus_fulfilled_at_third_query)
qed

subsection \<open>Sequencing\<close>

lemma fst_step [simp]: "fst (step es r) = es"
  by (simp add: step_def)

lemma snd_step [simp]: "snd (step es r) = r"
  by (simp add: step_def)

lemma fst_andThen:
  "fst (andThen r k) = (case snd r of Inl e \<Rightarrow> fst r | Inr x \<Rightarrow> fst r @ fst (k x))"
  by (cases r) (auto simp: andThen_def split: sum.splits prod.splits)

lemma snd_andThen:
  "snd (andThen r k) = (case snd r of Inl e \<Rightarrow> Inl e | Inr x \<Rightarrow> snd (k x))"
  by (cases r) (auto simp: andThen_def split: sum.splits prod.splits)

lemma andThen_step_Inr: "andThen (step es (Inr x)) k = (es @ fst (k x), snd (k x))"
  by (simp add: andThen_def step_def split: prod.splits)

lemma andThen_step_Inl: "andThen (step es (Inl e)) k = (es, Inl e)"
  by (simp add: andThen_def step_def)

lemma andThen_pair_Inr: "andThen (es, Inr x) k = (es @ fst (k x), snd (k x))"
  by (simp add: andThen_def split: prod.splits)

lemma andThen_pair_Inl: "andThen (es, Inl e) k = (es, Inl e)"
  by (simp add: andThen_def)

lemma require_Inr: "require x e = Inr v \<longleftrightarrow> x = Some v"
  by (cases x) (simp_all add: require_def)

text \<open>A property of events holds throughout a sequence when it holds in each part.\<close>

lemma andThen_all:
  assumes "\<forall>e\<in>set (fst r). P e"
    and "\<And>x. snd r = Inr x \<Longrightarrow> \<forall>e\<in>set (fst (k x)). P e"
  shows "\<forall>e\<in>set (fst (andThen r k)). P e"
  using assms by (auto simp: fst_andThen split: sum.splits)

lemma case_prod_all:
  assumes "\<And>a b. x = (a, b) \<Longrightarrow> \<forall>e\<in>set (fst (k a b)). P e"
  shows "\<forall>e\<in>set (fst (case_prod k x)). P e"
  using assms by (cases x) simp

lemma andThen_summary:
  assumes "SummaryPrinted \<notin> set (fst r)"
    and "\<And>x. snd r = Inr x \<Longrightarrow> ends_with_summary (k x)"
  shows "ends_with_summary (andThen r k)"
  using assms by (auto simp: ends_with_summary_def fst_andThen snd_andThen split: sum.splits)

lemma case_prod_summary:
  assumes "\<And>a b. x = (a, b) \<Longrightarrow> ends_with_summary (k a b)"
  shows "ends_with_summary (case_prod k x)"
  using assms by (cases x) simp

lemma step_summary: "ends_with_summary (step [SummaryPrinted] (Inr x))"
  by (simp add: ends_with_summary_def)

lemma fst_finish:
  "fst (finish ex q x) =
     (case snd q of Inl e \<Rightarrow> fst q | Inr c \<Rightarrow> if ex then fst q @ fst (x c) else fst q)"
  by (cases q) (auto simp: finish_def split: sum.splits prod.splits)

lemma finish_all:
  assumes "\<forall>e\<in>set (fst q). P e"
    and "\<And>c. snd q = Inr c \<Longrightarrow> \<forall>e\<in>set (fst (x c)). P e"
  shows "\<forall>e\<in>set (fst (finish ex q x)). P e"
  using assms by (auto simp: fst_finish split: sum.splits)

lemma finish_quote_only:
  "fst (finish False q x) = fst q \<and>
   snd (finish False q x) = (case snd q of Inl e \<Rightarrow> Failed e | Inr c \<Rightarrow> QuoteOnly)"
  by (cases q) (auto simp: finish_def split: sum.splits)

subsection \<open>The quote phases only read\<close>

lemma quote_phase_claw_wallet_reads:
  "\<forall>e\<in>set (fst (quote_phase_claw_wallet w a)). \<not> state_changing e"
  unfolding quote_phase_claw_wallet_def
  by (intro andThen_all case_prod_all; simp add: checked_balance_claw_wallet_def)

lemma quote_phase_claw_wallet_summary: "ends_with_summary (quote_phase_claw_wallet w a)"
  unfolding quote_phase_claw_wallet_def
  by (intro andThen_summary case_prod_summary step_summary;
      simp add: checked_balance_claw_wallet_def)

lemma quote_phase_clawlett_reads:
  "\<forall>e\<in>set (fst (quote_phase_clawlett w a)). \<not> state_changing e"
  unfolding quote_phase_clawlett_def
  by (intro andThen_all case_prod_all; simp add: checked_balance_clawlett_def)

lemma quote_phase_clawlett_summary: "ends_with_summary (quote_phase_clawlett w a)"
  unfolding quote_phase_clawlett_def
  by (intro andThen_summary case_prod_summary step_summary;
      simp add: checked_balance_clawlett_def)

lemma checked_balance_cow_reads:
  "\<forall>e\<in>set (fst (checked_balance_cow c s t m)). \<exists>b. e = BalanceRead b"
  unfolding checked_balance_cow_def
  by (auto simp: fst_andThen split: sum.splits)

lemma quote_phase_cow_reads:
  "\<forall>e\<in>set (fst (quote_phase_cow w a)). \<not> state_changing e"
  unfolding quote_phase_cow_def Let_def
  apply (intro andThen_all case_prod_all; (simp)?)
  using checked_balance_cow_reads apply fastforce
  done

lemma quote_phase_cow_summary: "ends_with_summary (quote_phase_cow w a)"
  unfolding quote_phase_cow_def Let_def
  apply (intro andThen_summary case_prod_summary step_summary; (simp)?)
  using checked_balance_cow_reads apply fastforce
  done

lemma quote_only_run:
  assumes "\<forall>e\<in>set (fst q). \<not> state_changing e" and "ends_with_summary q"
  shows "(\<forall>e\<in>set (fst (finish False q x)). \<not> state_changing e) \<and>
         (SummaryPrinted \<in> set (fst (finish False q x)) \<longrightarrow>
            snd (finish False q x) = QuoteOnly \<and> last (fst (finish False q x)) = SummaryPrinted)"
  using assms by (auto simp: finish_quote_only ends_with_summary_def split: sum.splits)

subsection \<open>Concrete runs\<close>

lemma lower_literals:
  "toLowerCase ''0x0000000000000000000000000000000000000000'' =
     ''0x0000000000000000000000000000000000000000''"
  "toLowerCase ''0x4200000000000000000000000000000000000006'' =
     ''0x4200000000000000000000000000000000000006''"
  "toLowerCase ''0x833589fCD6eDb6E08f4c7C32D4f71b54bdA02913'' =
     ''0x833589fcd6edb6e08f4c7c32d4f71b54bda02913''"
  by code_simp+

lemmas demo_defs =
  cow_demo_def sell_eth_def sell_usdc_def demo_config_def demo_resolve_def demo_chain_def
  demo_cow_quote_def demo_quote_response_def claw_wallet_demo_def aerodrome_demo_def
  NATIVE_ETH_def WETH_ADDRESS_def WETH_def USDC_def

lemmas run_defs =
  finish_def required_args_def step_def andThen_pair_Inr andThen_pair_Inl require_def
  check_def bigint_div_def tdiv_def lower_literals Let_def

lemma resolveToken_demo_USDC:
  "resolveToken demo_chain ''USDC'' =
     Inr \<lparr> address = USDC, symbol = ''USDC'', decimals = 6, verified = True, native = False,
           warning = None \<rparr>"
  by code_simp

lemma resolveToken_demo_ETH:
  "resolveToken demo_chain ''ETH'' =
     Inr \<lparr> address = WETH, symbol = ''WETH'', decimals = 18, verified = True,
           native = False, warning = None \<rparr>"
  by code_simp

lemma demo_chain_reads:
  "parseUnits demo_chain ''100'' 6 = Some 100000000"
  "parseUnits demo_chain ''900'' 6 = Some 900000000"
  "parseUnits demo_chain ''3'' 18 = Some 3000000000000000000"
  "parseUnits demo_chain ''5'' 18 = Some 5000000000000000000"
  "balanceOf demo_chain ''0x833589fCD6eDb6E08f4c7C32D4f71b54bdA02913'' = Some 500000000"
  "balanceOf demo_chain ''0x4200000000000000000000000000000000000006'' =
     Some 1000000000000000000"
  "nativeBalance demo_chain = Some 2000000000000000000"
  "allowance demo_chain ''0x833589fCD6eDb6E08f4c7C32D4f71b54bdA02913'' = Some 0"
  by (simp_all add: demo_chain_def USDC_def WETH_def)

lemmas claw_wallet_run_defs =
  main_claw_wallet_def quote_phase_claw_wallet_def claw_wallet_demo_def sell_usdc_def
  resolveToken_demo_USDC resolveToken_demo_ETH demo_chain_reads run_defs demo_config_def
  demo_quote_response_def checked_balance_claw_wallet_def is_WETH_def
  getQuote_claw_wallet_def truthy_def minAmountOut_claw_wallet_def double_sub_one_percent
  BigInt_of_number_def execute_phase_claw_wallet_def agent_wallet_def
  approve_claw_wallet_def current_allowance_def tx_wait_def confirmed_def succeeded_def
  USDC_def WETH_def

lemma claw_wallet_demo_executes:
  "main_claw_wallet claw_wallet_demo (sell_usdc ''100'' True (Finite 1) ''exact'') =
     ([TokenLookup ''USDC'', TokenLookup ''ETH'', BalanceRead USDC, QuoteRequest,
       SummaryPrinted, AllowanceRead, Approval USDC MaxUint256, Swap 0,
       BalanceRead ''native''], Completed)"
  by (simp add: claw_wallet_run_defs)

lemma claw_wallet_demo_quotes:
  "main_claw_wallet claw_wallet_demo (sell_usdc ''100'' False (Finite 1) ''exact'') =
     ([TokenLookup ''USDC'', TokenLookup ''ETH'', BalanceRead USDC, QuoteRequest,
       SummaryPrinted], QuoteOnly)"
  by (simp add: claw_wallet_run_defs)

lemmas clawlett_run_defs =
  main_clawlett_def quote_phase_clawlett_def demo_defs run_defs parseSlippageBps_one_percent
  preflight_def CHAIN_ID_def checked_balance_clawlett_def
  getQuote_clawlett_def truthy_def validateQuotePayload_def requireHexData_def
  startsWith_def ethValue_of_def minAmountOut_clawlett_def computedMinAmountOut_one_percent
  execute_phase_clawlett_def agent_wallet_def swapCalldata_of_def maybeApprove_def
  current_allowance_def tx_wait_def confirmed_def succeeded_def

lemma clawlett_demo_quote_phase:
  "quote_phase_clawlett aerodrome_demo (sell_usdc ''100'' True (Finite (1 / 100)) mode) =
     ([Preflight, TokenLookup ''USDC'', TokenLookup ''ETH'', BalanceRead USDC, QuoteRequest,
       SummaryPrinted], Inr demo_context)"
  by (simp add: clawlett_run_defs demo_context_def)

lemma clawlett_demo_executes_exact:
  "main_clawlett aerodrome_demo (sell_usdc ''100'' True (Finite (1 / 100)) ''exact'') =
     ([Preflight, TokenLookup ''USDC'', TokenLookup ''ETH'', BalanceRead USDC, QuoteRequest,
       SummaryPrinted, AllowanceRead, Approval USDC 100000000, Simulation, Swap 0,
       BalanceRead ''native''], Completed)"
  by (simp add: clawlett_run_defs)

lemma clawlett_demo_executes_max:
  "main_clawlett aerodrome_demo (sell_usdc ''100'' True (Finite (1 / 100)) ''max'') =
     ([Preflight, TokenLookup ''USDC'', TokenLookup ''ETH'', BalanceRead USDC, QuoteRequest,
       SummaryPrinted, AllowanceRead, Approval USDC MaxUint256, Simulation, Swap 0,
       BalanceRead ''native''], Completed)"
  by (simp add: clawlett_run_defs)

lemma clawlett_demo_quotes:
  "main_clawlett aerodrome_demo (sell_usdc ''100'' False (Finite (1 / 100)) ''exact'') =
     ([Preflight, TokenLookup ''USDC'', TokenLookup ''ETH'', BalanceRead USDC, QuoteRequest,
       SummaryPrinted], QuoteOnly)"
  by (simp add: clawlett_run_defs)

lemmas cow_run_defs =
  main_cow_def quote_phase_cow_def substitute_eth_def checked_balance_cow_def
  getCowQuote_def buySlippage_def demo_defs run_defs

lemma cow_demo_quotes:
  "main_cow cow_demo (sell_eth ''3'' False) =
     ([TokenLookup ''ETH'', TokenLookup ''USDC'', BalanceRead WETH_ADDRESS,
       BalanceRead ''native'', QuoteRequest, SummaryPrinted], QuoteOnly)"
  by (simp add: cow_run_defs)

lemma cow_demo_poll:
  "pollOrderStatus fills_at_third_query (Some 1800000) =
     ([StatusQuery, Wait 5000, StatusQuery, Wait 5000, StatusQuery], Inr Fulfilled)"
proof -
  let ?env = fills_at_third_query
  have r: "pollResponse ?env 0 = HttpOk ''open''" "pollResponse ?env 1 = HttpOk ''open''"
    "pollResponse ?env 2 = HttpOk ''fulfilled''"
    by (simp_all add: fills_at_third_query_def)
  have third: "pollLoop ?env 1800000 10202 2 = ([StatusQuery], Inr Fulfilled)"
    using r by (subst pollLoop.simps) (simp add: terminal_status_def)
  have second: "pollLoop ?env 1800000 5101 1 =
      ([StatusQuery, Wait 5000, StatusQuery], Inr Fulfilled)"
    using r third
    by (subst pollLoop.simps)
       (simp add: terminal_status_def fills_at_third_query_def pollInterval_def numeral_2_eq_2)
  have first: "pollLoop ?env 1800000 0 0 =
      ([StatusQuery, Wait 5000, StatusQuery, Wait 5000, StatusQuery], Inr Fulfilled)"
    using r second
    by (subst pollLoop.simps)
       (simp add: terminal_status_def fills_at_third_query_def pollInterval_def)
  then show ?thesis by (simp add: pollOrderStatus_def)
qed

lemma demo_hex_data:
  "hex_data demo_orderUid" "hex_data demo_appData" "length demo_appData = 66"
  unfolding hex_data_def demo_orderUid_def demo_appData_def by code_simp+

lemma cow_demo_executes:
  "main_cow cow_demo (sell_eth ''3'' True) =
     ([TokenLookup ''ETH'', TokenLookup ''USDC'', BalanceRead WETH_ADDRESS,
       BalanceRead ''native'', QuoteRequest, SummaryPrinted, AppDataRegistration,
       OrderSubmission demo_order, Wrap 2000000000000000000,
       Presignature demo_order_struct demo_orderUid,
       StatusQuery, Wait 5000, StatusQuery, Wait 5000, StatusQuery, BalanceRead USDC],
      Completed)"
  by (simp add: cow_run_defs execute_phase_cow_def agent_wallet_def helpers_address_def
      submitCowOrder_def build_order_def or_else_def validTo_of_def orderStruct_of_def
      kindToBytes32_def balanceToBytes32_def await_fill_def cow_demo_poll tx_wait_def
      succeeded_def ZodiacHelpers_def demo_order_def demo_order_struct_def
      demo_presignEncodes_def demo_hex_data)

subsection \<open>Quote-only runs\<close>

text \<open>
  C6. A run without the execute flag performs no state-changing call at any point (no
  approval, no swap, no revocation, no registration of application data, no order
  submission, no wrap, no presignature), in each of the three scripts; and when it prints
  the summary, the summary is the last thing it does and the run ends as a quote-only run.
\<close>

theorem quote_only_changes_nothing:
  "(\<not> arg_execute a \<longrightarrow>
      (\<forall>e\<in>set (fst (main_claw_wallet u a)). \<not> state_changing e) \<and>
      (SummaryPrinted \<in> set (fst (main_claw_wallet u a)) \<longrightarrow>
         snd (main_claw_wallet u a) = QuoteOnly \<and>
         last (fst (main_claw_wallet u a)) = SummaryPrinted)) \<and>
   (\<not> arg_execute b \<longrightarrow>
      (\<forall>e\<in>set (fst (main_clawlett v b)). \<not> state_changing e) \<and>
      (SummaryPrinted \<in> set (fst (main_clawlett v b)) \<longrightarrow>
         snd (main_clawlett v b) = QuoteOnly \<and>
         last (fst (main_clawlett v b)) = SummaryPrinted)) \<and>
   (\<not> arg_execute c \<longrightarrow>
      (\<forall>e\<in>set (fst (main_cow w c)). \<not> state_changing e) \<and>
      (SummaryPrinted \<in> set (fst (main_cow w c)) \<longrightarrow>
         snd (main_cow w c) = QuoteOnly \<and>
         last (fst (main_cow w c)) = SummaryPrinted))"
proof (intro conjI impI)
  assume "\<not> arg_execute a"
  then have m: "main_claw_wallet u a =
      finish False (quote_phase_claw_wallet u a) (execute_phase_claw_wallet u)"
    by (simp add: main_claw_wallet_def)
  note r = quote_only_run [OF quote_phase_claw_wallet_reads quote_phase_claw_wallet_summary,
      of u a "execute_phase_claw_wallet u"]
  show "\<forall>e\<in>set (fst (main_claw_wallet u a)). \<not> state_changing e"
    using r unfolding m by blast
  show "snd (main_claw_wallet u a) = QuoteOnly"
    if "SummaryPrinted \<in> set (fst (main_claw_wallet u a))"
    using r that unfolding m by blast
  show "last (fst (main_claw_wallet u a)) = SummaryPrinted"
    if "SummaryPrinted \<in> set (fst (main_claw_wallet u a))"
    using r that unfolding m by blast
next
  assume "\<not> arg_execute b"
  then have m: "main_clawlett v b =
      finish False (quote_phase_clawlett v b) (execute_phase_clawlett v b)"
    by (simp add: main_clawlett_def)
  note r = quote_only_run [OF quote_phase_clawlett_reads quote_phase_clawlett_summary,
      of v b "execute_phase_clawlett v b"]
  show "\<forall>e\<in>set (fst (main_clawlett v b)). \<not> state_changing e"
    using r unfolding m by blast
  show "snd (main_clawlett v b) = QuoteOnly"
    if "SummaryPrinted \<in> set (fst (main_clawlett v b))"
    using r that unfolding m by blast
  show "last (fst (main_clawlett v b)) = SummaryPrinted"
    if "SummaryPrinted \<in> set (fst (main_clawlett v b))"
    using r that unfolding m by blast
next
  assume "\<not> arg_execute c"
  then have m: "main_cow w c = finish False (quote_phase_cow w c) (execute_phase_cow w c)"
    by (simp add: main_cow_def)
  note r = quote_only_run [OF quote_phase_cow_reads quote_phase_cow_summary,
      of w c "execute_phase_cow w c"]
  show "\<forall>e\<in>set (fst (main_cow w c)). \<not> state_changing e"
    using r unfolding m by blast
  show "snd (main_cow w c) = QuoteOnly"
    if "SummaryPrinted \<in> set (fst (main_cow w c))"
    using r that unfolding m by blast
  show "last (fst (main_cow w c)) = SummaryPrinted"
    if "SummaryPrinted \<in> set (fst (main_cow w c))"
    using r that unfolding m by blast
qed

theorem quote_only_changes_nothing_witness:
  "\<not> arg_execute (sell_usdc ''100'' False (Finite 1) ''exact'') \<and>
   list_all (\<lambda>e. \<not> state_changing e)
     (fst (main_claw_wallet claw_wallet_demo (sell_usdc ''100'' False (Finite 1) ''exact''))) \<and>
   snd (main_claw_wallet claw_wallet_demo (sell_usdc ''100'' False (Finite 1) ''exact''))
     = QuoteOnly \<and>
   \<not> arg_execute (sell_usdc ''100'' False (Finite (1 / 100)) ''exact'') \<and>
   list_all (\<lambda>e. \<not> state_changing e)
     (fst (main_clawlett aerodrome_demo
        (sell_usdc ''100'' False (Finite (1 / 100)) ''exact''))) \<and>
   snd (main_clawlett aerodrome_demo (sell_usdc ''100'' False (Finite (1 / 100)) ''exact''))
     = QuoteOnly \<and>
   \<not> arg_execute (sell_eth ''3'' False) \<and>
   list_all (\<lambda>e. \<not> state_changing e) (fst (main_cow cow_demo (sell_eth ''3'' False))) \<and>
   snd (main_cow cow_demo (sell_eth ''3'' False)) = QuoteOnly"
proof -
  let ?a = "sell_usdc ''100'' False (Finite 1) ''exact''"
  let ?b = "sell_usdc ''100'' False (Finite (1 / 100)) ''exact''"
  let ?c = "sell_eth ''3'' False"
  have flags: "\<not> arg_execute ?a" "\<not> arg_execute ?b" "\<not> arg_execute ?c"
    by (simp_all add: sell_usdc_def sell_eth_def)
  have printed:
    "SummaryPrinted \<in> set (fst (main_claw_wallet claw_wallet_demo ?a))"
    "SummaryPrinted \<in> set (fst (main_clawlett aerodrome_demo ?b))"
    "SummaryPrinted \<in> set (fst (main_cow cow_demo ?c))"
    by (simp_all add: claw_wallet_demo_quotes clawlett_demo_quotes cow_demo_quotes)
  show ?thesis
    using quote_only_changes_nothing [of ?a claw_wallet_demo ?b aerodrome_demo ?c cow_demo]
      flags printed
    by (simp add: list_all_iff)
qed

subsection \<open>Balance check and quote\<close>

text \<open>
  C7, as the claim states it, fails in the CoW script when ETH is sold: the Safe holds
  1 WETH and 2 ETH, 3 ETH are to be sold, each of the two balances is below the amount,
  and the quote is requested all the same, because the script checks the sum of the two
  balances and plans to wrap the difference.
\<close>

theorem cow_quote_with_combined_balance:
  "balanceOf (co_chain cow_demo) WETH_ADDRESS = Some 1000000000000000000 \<and>
   nativeBalance (co_chain cow_demo) = Some 2000000000000000000 \<and>
   parseUnits (co_chain cow_demo) ''3'' 18 = Some 3000000000000000000 \<and>
   QuoteRequest \<in> set (fst (main_cow cow_demo (sell_eth ''3'' False))) \<and>
   snd (main_cow cow_demo (sell_eth ''3'' False)) = QuoteOnly"
  by (simp add: cow_demo_quotes) (simp add: cow_demo_def demo_chain_reads WETH_ADDRESS_def)

text \<open>
  C7, amended. In claw-wallet, a run that reaches the balance check with a balance below
  \<open>amountIn\<close> fails with the insufficient-balance error and never contacts the quote
  service; the balance checked is the native balance of the Safe when the input token
  resolves to the WETH address, and the token balance otherwise. In the CoW script the
  same holds, the balance checked being the token balance, except when ETH was substituted
  by WETH and the input token is WETH: then the run fails, without contacting the quote
  service, when the WETH balance and the sum of the WETH and ETH balances are both below
  \<open>amountIn\<close>.
\<close>

theorem balance_check_precedes_quote:
  "(required_args b = Inr (f, t, m) \<and> cw_config v = Some cfg \<and>
    resolveToken (cw_chain v) f = Inr tokenIn \<and> resolveToken (cw_chain v) t = Inr tokenOut \<and>
    parseUnits (cw_chain v) m (decimals tokenIn) = Some amt \<and>
    (if is_WETH tokenIn then nativeBalance (cw_chain v)
     else balanceOf (cw_chain v) (address tokenIn)) = Some bal \<and>
    bal < amt \<longrightarrow>
      snd (main_claw_wallet v b) = Failed InsufficientBalance \<and>
      QuoteRequest \<notin> set (fst (main_claw_wallet v b))) \<and>
   (required_args a = Inr (f', t', m') \<and> co_config w = Some cfg' \<and>
    co_resolve w f' = Inr resolvedIn \<and> co_resolve w t' = Inr resolvedOut \<and>
    substitute_eth resolvedIn = (sell, substitutedIn) \<and>
    substitute_eth resolvedOut = (buy, substitutedOut) \<and>
    parseUnits (co_chain w) m' (decimals sell) = Some amt' \<and>
    (if (substitutedIn \<or> substitutedOut) \<and>
        toLowerCase (address sell) = toLowerCase WETH_ADDRESS
     then \<exists>wethBalance ethBalance.
            balanceOf (co_chain w) WETH_ADDRESS = Some wethBalance \<and>
            nativeBalance (co_chain w) = Some ethBalance \<and>
            wethBalance < amt' \<and> wethBalance + ethBalance < amt'
     else \<exists>bal'. balanceOf (co_chain w) (address sell) = Some bal' \<and> bal' < amt') \<longrightarrow>
      snd (main_cow w a) = Failed InsufficientBalance \<and>
      QuoteRequest \<notin> set (fst (main_cow w a)))"
proof (intro conjI impI)
  assume h: "required_args b = Inr (f, t, m) \<and> cw_config v = Some cfg \<and>
    resolveToken (cw_chain v) f = Inr tokenIn \<and> resolveToken (cw_chain v) t = Inr tokenOut \<and>
    parseUnits (cw_chain v) m (decimals tokenIn) = Some amt \<and>
    (if is_WETH tokenIn then nativeBalance (cw_chain v)
     else balanceOf (cw_chain v) (address tokenIn)) = Some bal \<and>
    bal < amt"
  then have run: "quote_phase_claw_wallet v b =
      ([TokenLookup f, TokenLookup t,
        BalanceRead (if is_WETH tokenIn then ''native'' else address tokenIn)],
       Inl InsufficientBalance)"
    by (simp add: quote_phase_claw_wallet_def andThen_step_Inr andThen_step_Inl require_def
        check_def checked_balance_claw_wallet_def split: if_splits)
  show "snd (main_claw_wallet v b) = Failed InsufficientBalance"
    by (simp add: main_claw_wallet_def finish_def run)
  show "QuoteRequest \<notin> set (fst (main_claw_wallet v b))"
    by (simp add: main_claw_wallet_def finish_def run)
next
  assume h: "required_args a = Inr (f', t', m') \<and> co_config w = Some cfg' \<and>
    co_resolve w f' = Inr resolvedIn \<and> co_resolve w t' = Inr resolvedOut \<and>
    substitute_eth resolvedIn = (sell, substitutedIn) \<and>
    substitute_eth resolvedOut = (buy, substitutedOut) \<and>
    parseUnits (co_chain w) m' (decimals sell) = Some amt' \<and>
    (if (substitutedIn \<or> substitutedOut) \<and>
        toLowerCase (address sell) = toLowerCase WETH_ADDRESS
     then \<exists>wethBalance ethBalance.
            balanceOf (co_chain w) WETH_ADDRESS = Some wethBalance \<and>
            nativeBalance (co_chain w) = Some ethBalance \<and>
            wethBalance < amt' \<and> wethBalance + ethBalance < amt'
     else \<exists>bal'. balanceOf (co_chain w) (address sell) = Some bal' \<and> bal' < amt')"
  then have bal:
    "snd (checked_balance_cow (co_chain w) (substitutedIn \<or> substitutedOut) sell amt')
        = Inl InsufficientBalance \<and>
     QuoteRequest \<notin>
       set (fst (checked_balance_cow (co_chain w) (substitutedIn \<or> substitutedOut) sell amt'))"
    by (auto simp: checked_balance_cow_def fst_andThen snd_andThen require_def split: if_splits)
  from h have run: "quote_phase_cow w a =
      ([TokenLookup f', TokenLookup t'] @
         fst (checked_balance_cow (co_chain w) (substitutedIn \<or> substitutedOut) sell amt'),
       Inl InsufficientBalance)"
    using bal
    by (simp add: quote_phase_cow_def andThen_step_Inr andThen_step_Inl require_def
        fst_andThen snd_andThen)
  show "snd (main_cow w a) = Failed InsufficientBalance"
    by (simp add: main_cow_def finish_def run)
  show "QuoteRequest \<notin> set (fst (main_cow w a))"
    using bal by (simp add: main_cow_def finish_def run)
qed

theorem balance_check_precedes_quote_witness:
  "snd (main_claw_wallet claw_wallet_demo (sell_usdc ''900'' False (Finite 1) ''exact''))
     = Failed InsufficientBalance \<and>
   QuoteRequest \<notin>
     set (fst (main_claw_wallet claw_wallet_demo (sell_usdc ''900'' False (Finite 1) ''exact''))) \<and>
   snd (main_cow cow_demo (sell_eth ''5'' False)) = Failed InsufficientBalance \<and>
   QuoteRequest \<notin> set (fst (main_cow cow_demo (sell_eth ''5'' False)))"
proof -
  let ?usdc = "\<lparr> address = USDC, symbol = ''USDC'', decimals = 6, verified = True,
                  native = False, warning = None \<rparr>"
  let ?weth = "\<lparr> address = WETH, symbol = ''WETH'', decimals = 18, verified = True,
                  native = False, warning = None \<rparr>"
  let ?eth = "\<lparr> address = NATIVE_ETH, symbol = ''ETH'', decimals = 18, verified = True,
                 native = True, warning = None \<rparr>"
  let ?sold = "\<lparr> address = WETH_ADDRESS, symbol = ''WETH'', decimals = 18, verified = True,
                  native = True, warning = None \<rparr>"
  have "required_args (sell_usdc ''900'' False (Finite 1) ''exact'')
          = Inr (''USDC'', ''ETH'', ''900'') \<and>
        cw_config claw_wallet_demo = Some demo_config \<and>
        resolveToken (cw_chain claw_wallet_demo) ''USDC'' = Inr ?usdc \<and>
        resolveToken (cw_chain claw_wallet_demo) ''ETH'' = Inr ?weth \<and>
        parseUnits (cw_chain claw_wallet_demo) ''900'' (decimals ?usdc) = Some 900000000 \<and>
        (if is_WETH ?usdc then nativeBalance (cw_chain claw_wallet_demo)
         else balanceOf (cw_chain claw_wallet_demo) (address ?usdc)) = Some 500000000 \<and>
        (500000000 :: int) < 900000000"
    by (simp add: required_args_def sell_usdc_def claw_wallet_demo_def resolveToken_demo_USDC
        resolveToken_demo_ETH demo_chain_reads is_WETH_def USDC_def WETH_def lower_literals)
  moreover
  have "required_args (sell_eth ''5'' False) = Inr (''ETH'', ''USDC'', ''5'') \<and>
        co_config cow_demo = Some demo_config \<and>
        co_resolve cow_demo ''ETH'' = Inr ?eth \<and> co_resolve cow_demo ''USDC'' = Inr ?usdc \<and>
        substitute_eth ?eth = (?sold, True) \<and> substitute_eth ?usdc = (?usdc, False) \<and>
        parseUnits (co_chain cow_demo) ''5'' (decimals ?sold) = Some 5000000000000000000 \<and>
        (if (True \<or> False) \<and> toLowerCase (address ?sold) = toLowerCase WETH_ADDRESS
         then \<exists>wethBalance ethBalance.
                balanceOf (co_chain cow_demo) WETH_ADDRESS = Some wethBalance \<and>
                nativeBalance (co_chain cow_demo) = Some ethBalance \<and>
                wethBalance < 5000000000000000000 \<and>
                wethBalance + ethBalance < 5000000000000000000
         else \<exists>bal'. balanceOf (co_chain cow_demo) (address ?sold) = Some bal' \<and>
                bal' < 5000000000000000000)"
    by (simp add: required_args_def sell_eth_def cow_demo_def demo_resolve_def
        substitute_eth_def demo_chain_reads NATIVE_ETH_def WETH_ADDRESS_def USDC_def
        lower_literals)
  ultimately show ?thesis
    using balance_check_precedes_quote
      [of "sell_usdc ''900'' False (Finite 1) ''exact''" "''USDC''" "''ETH''" "''900''"
        claw_wallet_demo demo_config ?usdc ?weth 900000000 500000000
        "sell_eth ''5'' False" "''ETH''" "''USDC''" "''5''" cow_demo demo_config ?eth ?usdc
        ?sold True ?usdc False 5000000000000000000]
    by blast
qed

subsection \<open>Approvals\<close>

lemma maybeApprove_amount:
  "\<forall>e\<in>set (fst (maybeApprove c tx tokenIn amt mode)).
      \<forall>t x. e = Approval t x \<longrightarrow>
        current_allowance c (address tokenIn) < amt \<and> t = address tokenIn \<and>
        (mode = ''max'' \<longrightarrow> x = MaxUint256) \<and> (mode \<noteq> ''max'' \<longrightarrow> x = amt)"
  by (simp add: maybeApprove_def Let_def)

lemma execute_phase_clawlett_approval:
  "\<forall>e\<in>set (fst (execute_phase_clawlett w a ctx)).
      \<forall>t x. e = Approval t x \<longrightarrow>
        current_allowance (ae_chain w) (address (ctx_tokenIn ctx)) < ctx_amountIn ctx \<and>
        t = address (ctx_tokenIn ctx) \<and>
        (arg_approveMode a = ''max'' \<longrightarrow> x = MaxUint256) \<and>
        (arg_approveMode a \<noteq> ''max'' \<longrightarrow> x = ctx_amountIn ctx)"
  unfolding execute_phase_clawlett_def Let_def
  apply (intro andThen_all)
  apply (simp_all add: revokeAllowance_def)
  using maybeApprove_amount apply blast
  done

lemma approve_claw_wallet_amount:
  "\<forall>e\<in>set (fst (approve_claw_wallet c tx isETHIn tokenIn amt)).
      \<forall>t x. e = Approval t x \<longrightarrow> x = MaxUint256"
  by (simp add: approve_claw_wallet_def)

lemma execute_phase_claw_wallet_approval:
  "\<forall>e\<in>set (fst (execute_phase_claw_wallet w ctx)).
      \<forall>t x. e = Approval t x \<longrightarrow> x = MaxUint256"
  unfolding execute_phase_claw_wallet_def Let_def
  apply (intro andThen_all)
  apply (simp_all)
  using approve_claw_wallet_amount apply blast
  done

lemma reads_no_approval:
  "\<forall>e\<in>set es. \<not> state_changing e \<Longrightarrow> \<forall>e\<in>set es. \<forall>t x. e = Approval t x \<longrightarrow> Q t x"
  by auto

text \<open>
  C5, as the claim states it, fails in claw-wallet: the script has no approval mode, and
  the run below, which sells 100 USDC with no allowance in place and with nothing asking
  for an unlimited approval, approves \<open>MaxUint256\<close> and not the 100000000 units it sells.
\<close>

theorem claw_wallet_approves_unlimited:
  "arg_approveMode (sell_usdc ''100'' True (Finite 1) ''exact'') \<noteq> ''max'' \<and>
   parseUnits (cw_chain claw_wallet_demo) ''100'' 6 = Some 100000000 \<and>
   Approval USDC MaxUint256 \<in>
     set (fst (main_claw_wallet claw_wallet_demo (sell_usdc ''100'' True (Finite 1) ''exact''))) \<and>
   MaxUint256 \<noteq> 100000000"
  by (simp add: claw_wallet_demo_executes)
     (simp add: sell_usdc_def claw_wallet_demo_def demo_chain_reads MaxUint256_def)

text \<open>
  C5, amended. In the clawlett Aerodrome script an approval is issued only when the
  allowance is below \<open>amountIn\<close>, for the input token, and its amount is \<open>MaxUint256\<close>
  when the approval mode is \<^verbatim>\<open>max\<close> and exactly \<open>amountIn\<close> otherwise; this holds of
  \<^verbatim>\<open>maybeApprove\<close> and of every approval of a whole run; the mode \<^verbatim>\<open>parseArgs\<close> starts
  from is not \<^verbatim>\<open>max\<close>. In the claw-wallet script there is no mode, and every approval of
  a run is for \<open>MaxUint256\<close>.
\<close>

theorem approval_amount_by_script:
  "(\<forall>t x. Approval t x \<in> set (fst (maybeApprove c tx tokenIn amt mode)) \<longrightarrow>
      current_allowance c (address tokenIn) < amt \<and> t = address tokenIn \<and>
      (mode = ''max'' \<longrightarrow> x = MaxUint256) \<and> (mode \<noteq> ''max'' \<longrightarrow> x = amt)) \<and>
   (\<forall>es ctx t x. quote_phase_clawlett w a = (es, Inr ctx) \<longrightarrow>
      Approval t x \<in> set (fst (main_clawlett w a)) \<longrightarrow>
      current_allowance (ae_chain w) (address (ctx_tokenIn ctx)) < ctx_amountIn ctx \<and>
      t = address (ctx_tokenIn ctx) \<and>
      (arg_approveMode a = ''max'' \<longrightarrow> x = MaxUint256) \<and>
      (arg_approveMode a \<noteq> ''max'' \<longrightarrow> x = ctx_amountIn ctx)) \<and>
   arg_approveMode parseArgs_initial \<noteq> ''max'' \<and>
   (\<forall>t x. Approval t x \<in> set (fst (main_claw_wallet v b)) \<longrightarrow> x = MaxUint256)"
proof (intro conjI allI impI)
  fix t x
  assume "Approval t x \<in> set (fst (maybeApprove c tx tokenIn amt mode))"
  with maybeApprove_amount [of c tx tokenIn amt mode]
  have *: "current_allowance c (address tokenIn) < amt \<and> t = address tokenIn \<and>
      (mode = ''max'' \<longrightarrow> x = MaxUint256) \<and> (mode \<noteq> ''max'' \<longrightarrow> x = amt)"
    by blast
  from * show "current_allowance c (address tokenIn) < amt" by simp
  from * show "t = address tokenIn" by simp
  from * show "mode = ''max'' \<Longrightarrow> x = MaxUint256" by simp
  from * show "mode \<noteq> ''max'' \<Longrightarrow> x = amt" by simp
next
  fix es ctx t x
  assume q: "quote_phase_clawlett w a = (es, Inr ctx)"
    and ap: "Approval t x \<in> set (fst (main_clawlett w a))"
  have "\<forall>e\<in>set es. \<not> state_changing e"
    using quote_phase_clawlett_reads [of w a] q by simp
  then have "Approval t x \<notin> set es" by auto
  with q ap have "Approval t x \<in> set (fst (execute_phase_clawlett w a ctx))"
    by (auto simp: main_clawlett_def fst_finish split: if_splits)
  with execute_phase_clawlett_approval [of w a ctx]
  have *: "current_allowance (ae_chain w) (address (ctx_tokenIn ctx)) < ctx_amountIn ctx \<and>
      t = address (ctx_tokenIn ctx) \<and>
      (arg_approveMode a = ''max'' \<longrightarrow> x = MaxUint256) \<and>
      (arg_approveMode a \<noteq> ''max'' \<longrightarrow> x = ctx_amountIn ctx)"
    by blast
  from * show "current_allowance (ae_chain w) (address (ctx_tokenIn ctx)) < ctx_amountIn ctx"
    by simp
  from * show "t = address (ctx_tokenIn ctx)" by simp
  from * show "arg_approveMode a = ''max'' \<Longrightarrow> x = MaxUint256" by simp
  from * show "arg_approveMode a \<noteq> ''max'' \<Longrightarrow> x = ctx_amountIn ctx" by simp
next
  show "arg_approveMode parseArgs_initial \<noteq> ''max''"
    by (simp add: parseArgs_initial_def)
next
  fix t x
  assume ap: "Approval t x \<in> set (fst (main_claw_wallet v b))"
  have "\<forall>e\<in>set (fst (main_claw_wallet v b)). \<forall>t x. e = Approval t x \<longrightarrow> x = MaxUint256"
    unfolding main_claw_wallet_def
    by (intro finish_all reads_no_approval quote_phase_claw_wallet_reads
        execute_phase_claw_wallet_approval)
  with ap show "x = MaxUint256" by blast
qed

theorem approval_amount_by_script_witness:
  "Approval USDC 100000000 \<in>
     set (fst (main_clawlett aerodrome_demo
                 (sell_usdc ''100'' True (Finite (1 / 100)) ''exact''))) \<and>
   arg_approveMode (sell_usdc ''100'' True (Finite (1 / 100)) ''exact'') \<noteq> ''max'' \<and>
   (100000000 :: int) = ctx_amountIn demo_context \<and>
   current_allowance (ae_chain aerodrome_demo) (address (ctx_tokenIn demo_context))
     < ctx_amountIn demo_context \<and>
   Approval USDC MaxUint256 \<in>
     set (fst (main_clawlett aerodrome_demo
                 (sell_usdc ''100'' True (Finite (1 / 100)) ''max''))) \<and>
   Approval USDC MaxUint256 \<in>
     set (fst (main_claw_wallet claw_wallet_demo
                 (sell_usdc ''100'' True (Finite 1) ''exact'')))"
proof -
  let ?exact = "sell_usdc ''100'' True (Finite (1 / 100)) ''exact''"
  let ?max = "sell_usdc ''100'' True (Finite (1 / 100)) ''max''"
  have e: "Approval USDC 100000000 \<in> set (fst (main_clawlett aerodrome_demo ?exact))"
    by (simp add: clawlett_demo_executes_exact)
  have m: "Approval USDC MaxUint256 \<in> set (fst (main_clawlett aerodrome_demo ?max))"
    by (simp add: clawlett_demo_executes_max)
  have c: "Approval USDC MaxUint256 \<in>
      set (fst (main_claw_wallet claw_wallet_demo (sell_usdc ''100'' True (Finite 1) ''exact'')))"
    by (simp add: claw_wallet_demo_executes)
  have mode: "arg_approveMode ?exact \<noteq> ''max''" "arg_approveMode ?max = ''max''"
    by (simp_all add: sell_usdc_def)
  note inst = approval_amount_by_script [of demo_chain "TxMined 1" "ctx_tokenIn demo_context"
      100000000 "''exact''" aerodrome_demo ?exact claw_wallet_demo
      "sell_usdc ''100'' True (Finite 1) ''exact''"]
  from inst clawlett_demo_quote_phase [of "''exact''"] e mode
  have "current_allowance (ae_chain aerodrome_demo) (address (ctx_tokenIn demo_context))
          < ctx_amountIn demo_context \<and> (100000000 :: int) = ctx_amountIn demo_context"
    by blast
  with e m c mode show ?thesis by simp
qed

subsection \<open>Orders of the CoW script\<close>

lemma submitCowOrder_fee:
  "\<forall>e\<in>set (fst (submitCowOrder now h svc qo sa tmo)).
      (\<forall>st uid. e \<noteq> Presignature st uid) \<and>
      (\<forall>ord. e = OrderSubmission ord \<longrightarrow>
         o_feeAmount ord = Some 0 \<and>
         (\<exists>q f s b slip. qo = Some q \<and> cq_feeAmount q = Some f \<and> cq_sellAmount q = Some s \<and>
            cq_buyAmount q = Some b \<and> buySlippage f s b = Inr slip \<and>
            o_buyAmount ord = Some (b - slip)))"
  unfolding submitCowOrder_def Let_def
  by (intro andThen_all; simp add: require_Inr build_order_def)

lemma orderStruct_of_fee:
  "orderStruct_of ord sa = Inr st \<Longrightarrow>
     s_feeAmount st = 0 \<and> o_buyAmount ord = Some (s_buyAmount st) \<and>
     o_sellAmount ord = Some (s_sellAmount st)"
  unfolding orderStruct_of_def
  by (cases "o_sellAmount ord"; cases "o_buyAmount ord"; cases "kindToBytes32 (o_kind ord)";
      cases "balanceToBytes32 (or_else (Some (o_sellTokenBalance ord)) ''erc20'')";
      cases "balanceToBytes32 (or_else (Some (o_buyTokenBalance ord)) ''erc20'')") auto

lemma run_operations_events: "set (fst (run_operations fate i ops)) \<subseteq> set ops"
  by (induction ops arbitrary: i) (auto simp: fst_andThen split: sum.splits)

lemma pollLoop_events:
  "\<forall>e\<in>set (fst (pollLoop env t el i)). e = StatusQuery \<or> (\<exists>n. e = Wait n)"
proof (induction env t el i rule: pollLoop.induct)
  case (1 env timeoutMs elapsed i)
  show ?case
    using 1 by (subst pollLoop.simps) (auto split: option.splits prod.splits)
qed

lemma await_fill_events:
  "\<forall>e\<in>set (fst (await_fill env t)). e = StatusQuery \<or> (\<exists>n. e = Wait n)"
proof -
  have "fst (await_fill env t) = fst (pollOrderStatus env (map_option (\<lambda>t. t * 1000) t))"
    by (auto simp: await_fill_def split: prod.splits sum.splits poll_status.splits)
  then show ?thesis
    using pollLoop_events by (auto simp: pollOrderStatus_def split: option.splits)
qed

lemma reads_zero_fee: "\<not> state_changing e \<Longrightarrow> zero_fee e"
  by (cases e) (simp_all add: zero_fee_def)

lemma execute_phase_cow_zero_fee:
  "\<forall>e\<in>set (fst (execute_phase_cow w a ctx)). zero_fee e"
  unfolding execute_phase_cow_def Let_def
proof (intro andThen_all case_prod_all, goal_cases)
  case 1 show ?case by simp
next
  case 2 show ?case by simp
next
  case (3 u h)
  show ?case
  proof
    fix e
    assume "e \<in> set (fst (submitCowOrder (co_now w) (co_appDataHash w) (co_orderService w)
                (Some (cc_quote ctx)) (safe (cc_config ctx)) (arg_timeout a)))"
    with submitCowOrder_fee show "zero_fee e"
      unfolding zero_fee_def by blast
  qed
next
  case 4 show ?case by simp
next
  case 5 show ?case by simp
next
  case 6 show ?case by simp
next
  case (7 u h x uid ord u' st)
  then have fee: "s_feeAmount st = 0" using orderStruct_of_fee by simp
  show ?case
  proof
    fix e
    assume "e \<in> set (fst (run_operations (co_transactions w) 0
                ((if cc_wrapAmount ctx > 0 then [Wrap (cc_wrapAmount ctx)] else []) @
                 [Presignature st uid])))"
    then have "e \<in> set ((if cc_wrapAmount ctx > 0 then [Wrap (cc_wrapAmount ctx)] else []) @
                 [Presignature st uid])"
      using run_operations_events by blast
    then show "zero_fee e"
      using fee by (auto simp: zero_fee_def split: if_splits)
  qed
next
  case 8
  show ?case
  proof
    fix e
    assume "e \<in> set (fst (await_fill (co_poll w) (arg_timeout a)))"
    with await_fill_events have "e = StatusQuery \<or> (\<exists>n. e = Wait n)" by blast
    then show "zero_fee e" by (auto simp: zero_fee_def)
  qed
next
  case 9 show ?case by (simp add: zero_fee_def)
qed

lemma quote_phase_cow_zero_fee: "\<forall>e\<in>set (fst (quote_phase_cow w a)). zero_fee e"
  using quote_phase_cow_reads reads_zero_fee by blast

text \<open>
  C10. Every order document that \<^verbatim>\<open>submitCowOrder\<close> posts carries the fee amount zero,
  whatever fee the quote names, and its buy amount is the quoted buy amount less the smart
  slippage, which is computed from the quoted fee; the struct built for the presignature
  carries the fee amount zero and the buy amount of the order; and in every run of the
  script every order submitted and every struct presigned carries the fee amount zero.
\<close>

theorem cow_order_fee_is_zero:
  "(\<forall>ord. OrderSubmission ord \<in> set (fst (submitCowOrder now h svc (Some q) sa tmo)) \<longrightarrow>
      o_feeAmount ord = Some 0 \<and>
      (\<exists>f s b slip. cq_feeAmount q = Some f \<and> cq_sellAmount q = Some s \<and>
         cq_buyAmount q = Some b \<and> buySlippage f s b = Inr slip \<and>
         o_buyAmount ord = Some (b - slip))) \<and>
   (\<forall>ord st. orderStruct_of ord sa = Inr st \<longrightarrow>
      s_feeAmount st = 0 \<and> o_buyAmount ord = Some (s_buyAmount st)) \<and>
   (\<forall>ord. OrderSubmission ord \<in> set (fst (main_cow w a)) \<longrightarrow> o_feeAmount ord = Some 0) \<and>
   (\<forall>st uid. Presignature st uid \<in> set (fst (main_cow w a)) \<longrightarrow> s_feeAmount st = 0)"
proof (intro conjI allI impI)
  fix ord
  assume "OrderSubmission ord \<in> set (fst (submitCowOrder now h svc (Some q) sa tmo))"
  with submitCowOrder_fee [of now h svc "Some q" sa tmo]
  have *: "o_feeAmount ord = Some 0 \<and>
         (\<exists>q' f s b slip. Some q = Some q' \<and> cq_feeAmount q' = Some f \<and>
            cq_sellAmount q' = Some s \<and> cq_buyAmount q' = Some b \<and>
            buySlippage f s b = Inr slip \<and> o_buyAmount ord = Some (b - slip))"
    by fast
  from * show "o_feeAmount ord = Some 0" by simp
  from * show "\<exists>f s b slip. cq_feeAmount q = Some f \<and> cq_sellAmount q = Some s \<and>
         cq_buyAmount q = Some b \<and> buySlippage f s b = Inr slip \<and>
         o_buyAmount ord = Some (b - slip)"
    by simp
next
  fix ord st
  assume "orderStruct_of ord sa = Inr st"
  then show "s_feeAmount st = 0" and "o_buyAmount ord = Some (s_buyAmount st)"
    using orderStruct_of_fee by simp_all
next
  have run: "\<forall>e\<in>set (fst (main_cow w a)). zero_fee e"
    unfolding main_cow_def
    by (intro finish_all quote_phase_cow_zero_fee execute_phase_cow_zero_fee)
  {
    fix ord
    assume "OrderSubmission ord \<in> set (fst (main_cow w a))"
    with run have "zero_fee (OrderSubmission ord)" by fast
    then show "o_feeAmount ord = Some 0" by (simp add: zero_fee_def)
  next
    fix st uid
    assume "Presignature st uid \<in> set (fst (main_cow w a))"
    with run have "zero_fee (Presignature st uid)" by fast
    then show "s_feeAmount st = 0" by (simp add: zero_fee_def)
  }
qed

theorem cow_order_fee_is_zero_witness:
  "cq_feeAmount demo_cow_quote = Some 1000000000000000 \<and>
   OrderSubmission demo_order \<in> set (fst (main_cow cow_demo (sell_eth ''3'' True))) \<and>
   o_feeAmount demo_order = Some 0 \<and>
   Presignature demo_order_struct demo_orderUid
     \<in> set (fst (main_cow cow_demo (sell_eth ''3'' True))) \<and>
   s_feeAmount demo_order_struct = 0 \<and>
   buySlippage 1000000000000000 2999000000000000000 10000000000 = Inr 55001667 \<and>
   o_buyAmount demo_order = Some (10000000000 - 55001667)"
proof -
  have sub: "OrderSubmission demo_order \<in> set (fst (main_cow cow_demo (sell_eth ''3'' True)))"
    and pre: "Presignature demo_order_struct demo_orderUid
      \<in> set (fst (main_cow cow_demo (sell_eth ''3'' True)))"
    by (simp_all add: cow_demo_executes)
  from cow_order_fee_is_zero [of 0 "\<lambda>n. []" None demo_cow_quote "[]" None cow_demo
      "sell_eth ''3'' True"] sub pre
  have "o_feeAmount demo_order = Some 0 \<and> s_feeAmount demo_order_struct = 0"
    by blast
  moreover have "buySlippage 1000000000000000 2999000000000000000 10000000000 = Inr 55001667"
    by (simp add: buySlippage_def bigint_div_def tdiv_def)
  moreover have "o_buyAmount demo_order = Some (10000000000 - 55001667)"
    by (simp add: demo_order_def)
  moreover have "cq_feeAmount demo_cow_quote = Some 1000000000000000"
    by (simp add: demo_cow_quote_def)
  ultimately show ?thesis using sub pre by simp
qed

end
